theory Spec2Isabelle
  imports Complex_Main
begin

section \<open>Data model (pkg/models/models.go)\<close>

text \<open>
  A \<open>uuid.UUID\<close> is an opaque identifier; a \<open>time.Time\<close> is an instant, counted in
  nanoseconds since the zero time (UTC); a \<open>decimal.Decimal\<close> is represented by the
  number it denotes: the library compares decimals by value (\<open>Equal\<close>, \<open>GreaterThan\<close>,
  \<open>LessThanOrEqual\<close>) and its \<open>Add\<close>, \<open>Sub\<close> and \<open>Mul\<close> are exact, so they are
  \<open>+\<close>, \<open>-\<close> and \<open>*\<close> on rationals.
\<close>

type_synonym uuid = nat
type_synonym time = nat
type_synonym Decimal = rat

record Loan =
  ID :: uuid
  CustomerKey :: string
  Principal :: Decimal
  Balance :: Decimal
  BaseInterestRate :: Decimal
  InterestRateVariance :: Decimal
  InterestRate :: Decimal
  Status :: string
  CreatedAt :: time
  UpdatedAt :: time
  LastInterestCalculationDate :: "time option"
  StatementCycleDay :: int
  AccruedInterest :: Decimal

datatype TransactionType =
  TransactionTypeDisbursement | TransactionTypePayment | TransactionTypeInterest

record Transaction =
  TxID :: uuid
  LoanID :: uuid
  Amount :: Decimal
  Type :: TransactionType
  Timestamp :: time

section \<open>Library operations used by the ledger\<close>

text \<open>
  \<open>Decimal.Div\<close> of shopspring/decimal (the version go.mod names, v1.4.0) is
  \<open>DivRound\<close> at the package default \<open>DivisionPrecision = 16\<close>: the quotient is cut
  to 16 decimal places towards zero and then moved one unit of the last place away from
  zero when twice the remainder is not below the divisor. The ledger only ever divides
  by \<open>daysInYear = 365\<close>, so the panic of a division by zero cannot occur there.
\<close>

definition DivisionPrecision :: nat where
  "DivisionPrecision = 16"

definition DivRound :: "Decimal \<Rightarrow> Decimal \<Rightarrow> nat \<Rightarrow> Decimal" where
  "DivRound d d2 precision =
     (let scaled = d / d2 * 10 ^ precision;
          q = (if 0 \<le> scaled then \<lfloor>scaled\<rfloor> else \<lceil>scaled\<rceil>);
          r = \<bar>scaled - of_int q\<bar>
      in if 2 * r < 1 then of_int q / 10 ^ precision
         else if d * d2 < 0 then (of_int q - 1) / 10 ^ precision
         else (of_int q + 1) / 10 ^ precision)"

definition Div :: "Decimal \<Rightarrow> Decimal \<Rightarrow> Decimal" where
  "Div d d2 = DivRound d d2 DivisionPrecision"

definition daysInYear :: Decimal where
  "daysInYear = 365"

text \<open>
  \<open>t.Truncate(d)\<close> rounds an instant down to a multiple of \<open>d\<close> since the zero time
  and returns \<open>t\<close> itself when \<open>d \<le> 0\<close>; \<open>hours24\<close> is \<open>24 * time.Hour\<close>.
\<close>

definition hours24 :: nat where
  "hours24 = 24 * 3600 * 1000000000"

definition Truncate :: "time \<Rightarrow> nat \<Rightarrow> time" where
  "Truncate t d = (if d = 0 then t else t - t mod d)"

section \<open>The store (SQLiteStore behind the Storage interface)\<close>

text \<open>
  The two tables are lists of rows in insertion order. \<open>faults\<close> is the schedule of
  errors the database driver is going to return: every call of the store takes the next
  flag, and an exhausted schedule means that no call fails any more. \<open>uuids\<close> is the
  generator behind \<open>uuid.New()\<close>: every call returns a value that was not returned
  before. Rows are values: a loan read from the store is a copy, as with the SQLite
  store, and changes reach the store only through \<open>UpdateLoan\<close>.
\<close>

record State =
  loans :: "Loan list"
  transactions :: "Transaction list"
  faults :: "bool list"
  uuids :: nat

datatype error =
  LoanNotFound
  | LoanNotActive
  | DriverError
  | Wrapped string error

definition db_call :: "State \<Rightarrow> bool \<times> State" where
  "db_call st = (case faults st of [] \<Rightarrow> (False, st) | f # fs \<Rightarrow> (f, st\<lparr>faults := fs\<rparr>))"

definition uuid_New :: "State \<Rightarrow> uuid \<times> State" where
  "uuid_New st = (uuids st, st\<lparr>uuids := Suc (uuids st)\<rparr>)"

text \<open>INSERT INTO loans: fails on a driver error and on a primary key already present.\<close>

definition store_CreateLoan :: "Loan \<Rightarrow> State \<Rightarrow> error option \<times> State" where
  "store_CreateLoan loan st =
     (let (f, st1) = db_call st
      in if f \<or> ID loan \<in> set (map ID (loans st1))
         then (Some (Wrapped ''failed to create loan'' DriverError), st1)
         else (None, st1\<lparr>loans := loans st1 @ [loan]\<rparr>))"

text \<open>SELECT ... FROM loans WHERE id = ?: the row with the given primary key.\<close>

definition selectLoan :: "uuid \<Rightarrow> Loan list \<Rightarrow> Loan option" where
  "selectLoan i ls = find (\<lambda>l. ID l = i) ls"

definition store_GetLoan :: "uuid \<Rightarrow> State \<Rightarrow> (error + Loan) \<times> State" where
  "store_GetLoan i st =
     (let (f, st1) = db_call st
      in if f then (Inl (Wrapped ''failed to get loan'' DriverError), st1)
         else (case selectLoan i (loans st1) of
                 None \<Rightarrow> (Inl LoanNotFound, st1)
               | Some l \<Rightarrow> (Inr l, st1)))"

text \<open>
  UPDATE loans SET ... WHERE id = ?: every column but \<open>id\<close> and \<open>created_at\<close> is
  written; no row affected is the error "loan not found".
\<close>

definition store_UpdateLoan :: "Loan \<Rightarrow> State \<Rightarrow> error option \<times> State" where
  "store_UpdateLoan loan st =
     (let (f, st1) = db_call st
      in if f then (Some (Wrapped ''failed to update loan'' DriverError), st1)
         else if ID loan \<notin> set (map ID (loans st1)) then (Some LoanNotFound, st1)
         else (None, st1\<lparr>loans :=
                 map (\<lambda>l. if ID l = ID loan then loan\<lparr>CreatedAt := CreatedAt l\<rparr> else l)
                   (loans st1)\<rparr>))"

text \<open>
  DeleteLoan runs in one database transaction: the loan's transactions and the loan
  are deleted together, and a driver error or a missing loan rolls everything back.
\<close>

definition store_DeleteLoan :: "uuid \<Rightarrow> State \<Rightarrow> error option \<times> State" where
  "store_DeleteLoan i st =
     (let (f, st1) = db_call st
      in if f then (Some (Wrapped ''failed to delete loan'' DriverError), st1)
         else if i \<notin> set (map ID (loans st1)) then (Some LoanNotFound, st1)
         else (None, st1\<lparr>transactions := filter (\<lambda>t. LoanID t \<noteq> i) (transactions st1),
                         loans := filter (\<lambda>l. ID l \<noteq> i) (loans st1)\<rparr>))"

definition store_GetAllActiveLoans :: "State \<Rightarrow> (error + Loan list) \<times> State" where
  "store_GetAllActiveLoans st =
     (let (f, st1) = db_call st
      in if f then (Inl (Wrapped ''failed to get all active loans'' DriverError), st1)
         else (Inr (filter (\<lambda>l. Status l = ''active'') (loans st1)), st1))"

text \<open>
  INSERT INTO transactions: fails on a driver error, on a primary key already present
  and on a \<open>loan_id\<close> that references no loan (foreign keys are switched on).
\<close>

definition store_CreateTransaction :: "Transaction \<Rightarrow> State \<Rightarrow> error option \<times> State" where
  "store_CreateTransaction tx st =
     (let (f, st1) = db_call st
      in if f \<or> TxID tx \<in> set (map TxID (transactions st1))
              \<or> LoanID tx \<notin> set (map ID (loans st1))
         then (Some (Wrapped ''failed to create transaction'' DriverError), st1)
         else (None, st1\<lparr>transactions := transactions st1 @ [tx]\<rparr>))"

section \<open>The ledger (pkg/ledger/ledger.go)\<close>

text \<open>
  Every operation takes \<open>now\<close>, the reading of \<open>time.Now()\<close> during the call. What
  \<open>fmt.Printf\<close> writes is not part of the model.
\<close>

definition minStatementDay :: int where
  "minStatementDay = 1"

definition maxStatementDay :: int where
  "maxStatementDay = 28"

text \<open>
  \<open>r.Intn(n)\<close> returns a number in \<open>[0, n)\<close>; \<open>v\<close> is the draw of the random source
  it is computed from.
\<close>

definition Intn :: "nat \<Rightarrow> int \<Rightarrow> int" where
  "Intn v n = int v mod n"

definition assignStatementCycleDay :: "nat \<Rightarrow> int" where
  "assignStatementCycleDay v = Intn v (maxStatementDay - minStatementDay + 1) + minStatementDay"

definition CreateLoan ::
  "time \<Rightarrow> nat \<Rightarrow> string \<Rightarrow> Decimal \<Rightarrow> Decimal \<Rightarrow> Decimal \<Rightarrow> State \<Rightarrow> (error + Loan) \<times> State" where
  "CreateLoan now v customerKey principal' baseRate variance st =
     (let (i, st1) = uuid_New st;
          loan = \<lparr>ID = i, CustomerKey = customerKey, Principal = principal',
                  Balance = principal', BaseInterestRate = baseRate,
                  InterestRateVariance = variance, InterestRate = baseRate + variance,
                  Status = ''active'', CreatedAt = now, UpdatedAt = now,
                  LastInterestCalculationDate = None,
                  StatementCycleDay = assignStatementCycleDay v,
                  AccruedInterest = 0\<rparr>;
          (err, st2) = store_CreateLoan loan st1
      in case err of
           Some e \<Rightarrow> (Inl (Wrapped ''failed to store loan'' e), st2)
         | None \<Rightarrow>
             (let (j, st3) = uuid_New st2;
                  transaction = \<lparr>TxID = j, LoanID = ID loan, Amount = principal',
                                 Type = TransactionTypeDisbursement, Timestamp = now\<rparr>;
                  (err2, st4) = store_CreateTransaction transaction st3
              in case err2 of
                   Some e \<Rightarrow> (Inl (Wrapped ''failed to store disbursement transaction'' e), st4)
                 | None \<Rightarrow> (Inr loan, st4)))"

text \<open>The body of the loop of CalculateDailyInterest, for one loan of the snapshot.\<close>

definition accrueLoan :: "time \<Rightarrow> time \<Rightarrow> State \<Rightarrow> Loan \<Rightarrow> State" where
  "accrueLoan now today st loan =
     (if (case LastInterestCalculationDate loan of
            None \<Rightarrow> False
          | Some d \<Rightarrow> Truncate d hours24 = today)
      then st
      else (let dailyRate = Div (InterestRate loan) daysInYear;
                interestAmount = Balance loan * dailyRate
            in if interestAmount > 0
               then (let loan1 = loan\<lparr>AccruedInterest := AccruedInterest loan + interestAmount,
                                       UpdatedAt := now,
                                       LastInterestCalculationDate := Some today\<rparr>
                     in snd (store_UpdateLoan loan1 st))
               else st))"

definition CalculateDailyInterest :: "time \<Rightarrow> State \<Rightarrow> State" where
  "CalculateDailyInterest now st =
     (case store_GetAllActiveLoans st of
        (Inl e, st1) \<Rightarrow> st1
      | (Inr ls, st1) \<Rightarrow> foldl (accrueLoan now (Truncate now hours24)) st1 ls)"

text \<open>
  The body of the loop of ApplyMonthlyInterest; \<open>todayDay\<close> is \<open>time.Now().Day()\<close>.
  The transaction is appended first, the loan is updated after it, and either error
  ends the iteration for this loan only.
\<close>

definition capitalizeLoan :: "time \<Rightarrow> int \<Rightarrow> State \<Rightarrow> Loan \<Rightarrow> State" where
  "capitalizeLoan now todayDay st loan =
     (if StatementCycleDay loan = todayDay
      then (if AccruedInterest loan > 0
            then (let loan1 = loan\<lparr>Balance := Balance loan + AccruedInterest loan,
                                    UpdatedAt := now\<rparr>;
                      (j, st1) = uuid_New st;
                      transaction = \<lparr>TxID = j, LoanID = ID loan1,
                                     Amount = AccruedInterest loan1,
                                     Type = TransactionTypeInterest, Timestamp = now\<rparr>;
                      (err, st2) = store_CreateTransaction transaction st1
                  in case err of
                       Some e \<Rightarrow> st2
                     | None \<Rightarrow> snd (store_UpdateLoan (loan1\<lparr>AccruedInterest := 0\<rparr>) st2))
            else st)
      else st)"

definition ApplyMonthlyInterest :: "time \<Rightarrow> int \<Rightarrow> State \<Rightarrow> State" where
  "ApplyMonthlyInterest now todayDay st =
     (case store_GetAllActiveLoans st of
        (Inl e, st1) \<Rightarrow> st1
      | (Inr ls, st1) \<Rightarrow> foldl (capitalizeLoan now todayDay) st1 ls)"

definition GetLoan :: "uuid \<Rightarrow> State \<Rightarrow> (error + Loan) \<times> State" where
  "GetLoan i st = store_GetLoan i st"

definition UpdateLoan :: "time \<Rightarrow> Loan \<Rightarrow> State \<Rightarrow> error option \<times> State" where
  "UpdateLoan now loan st = store_UpdateLoan (loan\<lparr>UpdatedAt := now\<rparr>) st"

definition DeleteLoan :: "uuid \<Rightarrow> State \<Rightarrow> error option \<times> State" where
  "DeleteLoan i st = store_DeleteLoan i st"

text \<open>
  Lines 192 to 199 of RecordPayment: the amount is subtracted from the balance, and a
  balance of zero or less closes the loan and is set to zero.
\<close>

definition applyPayment :: "time \<Rightarrow> Decimal \<Rightarrow> Loan \<Rightarrow> Loan" where
  "applyPayment now amount loan =
     (let loan1 = loan\<lparr>Balance := Balance loan - amount, UpdatedAt := now\<rparr>
      in if Balance loan1 \<le> 0
         then loan1\<lparr>Status := ''closed'', Balance := 0\<rparr>
         else loan1)"

definition RecordPayment ::
  "time \<Rightarrow> uuid \<Rightarrow> Decimal \<Rightarrow> State \<Rightarrow> (error + Transaction) \<times> State" where
  "RecordPayment now loanID amount st =
     (case store_GetLoan loanID st of
        (Inl e, st1) \<Rightarrow> (Inl e, st1)
      | (Inr loan, st1) \<Rightarrow>
          if Status loan \<noteq> ''active'' then (Inl LoanNotActive, st1)
          else (let loan2 = applyPayment now amount loan;
                    (err, st2) = store_UpdateLoan loan2 st1
                in case err of
                     Some e \<Rightarrow> (Inl (Wrapped ''failed to update loan balance'' e), st2)
                   | None \<Rightarrow>
                       (let (j, st3) = uuid_New st2;
                            transaction = \<lparr>TxID = j, LoanID = ID loan2, Amount = amount,
                                           Type = TransactionTypePayment, Timestamp = now\<rparr>;
                            (err2, st4) = store_CreateTransaction transaction st3
                        in case err2 of
                             Some e \<Rightarrow>
                               (Inl (Wrapped ''failed to store payment transaction'' e), st4)
                           | None \<Rightarrow> (Inr transaction, st4))))"

section \<open>The API handler of payments (cmd/api/main.go)\<close>

text \<open>
  \<open>recordPaymentHandler\<close> after parsing: \<open>idParsed\<close> is the result of
  \<open>uuid.Parse\<close> on the path variable and \<open>bodyDecoded\<close> the amount decoded from
  the JSON body, \<open>None\<close> when parsing or decoding failed. The result is the HTTP status
  code of the response.
\<close>

definition recordPaymentHandler ::
  "time \<Rightarrow> uuid option \<Rightarrow> Decimal option \<Rightarrow> State \<Rightarrow> nat \<times> State" where
  "recordPaymentHandler now idParsed bodyDecoded st =
     (case idParsed of
        None \<Rightarrow> (400, st)
      | Some loanID \<Rightarrow>
          (case bodyDecoded of
             None \<Rightarrow> (400, st)
           | Some amount \<Rightarrow>
               if amount \<le> 0 then (400, st)
               else (case RecordPayment now loanID amount st of
                       (Inl e, st1) \<Rightarrow> (if e = LoanNotFound then 404 else 500, st1)
                     | (Inr tx, st1) \<Rightarrow> (201, st1))))"

section \<open>Sequences of engine operations\<close>

datatype Op =
  OpCreateLoan time nat string Decimal Decimal Decimal
  | OpCalculateDailyInterest time
  | OpApplyMonthlyInterest time int
  | OpRecordPayment time uuid Decimal

fun step :: "State \<Rightarrow> Op \<Rightarrow> State" where
  "step st (OpCreateLoan now v customerKey principal' baseRate variance) =
     snd (CreateLoan now v customerKey principal' baseRate variance st)"
| "step st (OpCalculateDailyInterest now) = CalculateDailyInterest now st"
| "step st (OpApplyMonthlyInterest now todayDay) = ApplyMonthlyInterest now todayDay st"
| "step st (OpRecordPayment now loanID amount) = snd (RecordPayment now loanID amount st)"

definition run :: "State \<Rightarrow> Op list \<Rightarrow> State" where
  "run st ops = foldl step st ops"

definition emptyState :: State where
  "emptyState = \<lparr>loans = [], transactions = [], faults = [], uuids = 0\<rparr>"

section \<open>Invariants and sums\<close>

text \<open>
  A well-formed state: loan ids are pairwise distinct (the primary key) and no stored
  id is one that \<open>uuid.New()\<close> is still going to return.
\<close>

definition wf :: "State \<Rightarrow> bool" where
  "wf st \<longleftrightarrow>
     distinct (map ID (loans st))
     \<and> list_all (\<lambda>l. ID l < uuids st) (loans st)
     \<and> list_all (\<lambda>t. TxID t < uuids st) (transactions st)"

definition sumAmounts :: "TransactionType \<Rightarrow> Transaction list \<Rightarrow> Decimal" where
  "sumAmounts ty txs = sum_list (map Amount (filter (\<lambda>t. Type t = ty) txs))"

definition ledgerTotal :: "State \<Rightarrow> Decimal" where
  "ledgerTotal st =
     sumAmounts TransactionTypeDisbursement (transactions st)
     + sumAmounts TransactionTypeInterest (transactions st)
     - sumAmounts TransactionTypePayment (transactions st)"

definition sumBalances :: "State \<Rightarrow> Decimal" where
  "sumBalances st = sum_list (map Balance (loans st))"

definition sumAccrued :: "State \<Rightarrow> Decimal" where
  "sumAccrued st = sum_list (map AccruedInterest (loans st))"

section \<open>What one accrual pass does to a row\<close>

text \<open>
  \<open>accrualDue today loan\<close>: the loop body of CalculateDailyInterest reaches the update
  for this loan (it has not been accrued on that date and the interest amount is positive);
  \<open>accruedRow\<close> is the loan it then writes, and \<open>accrualStep\<close> the effect of one pass
  on a row of the table.
\<close>

definition accrualDue :: "time \<Rightarrow> Loan \<Rightarrow> bool" where
  "accrualDue today loan \<longleftrightarrow>
     \<not> (case LastInterestCalculationDate loan of
          None \<Rightarrow> False
        | Some d \<Rightarrow> Truncate d hours24 = today)
     \<and> Balance loan * Div (InterestRate loan) daysInYear > 0"

definition accruedRow :: "time \<Rightarrow> time \<Rightarrow> Loan \<Rightarrow> Loan" where
  "accruedRow now today loan =
     loan\<lparr>AccruedInterest :=
            AccruedInterest loan + Balance loan * Div (InterestRate loan) daysInYear,
          UpdatedAt := now, LastInterestCalculationDate := Some today\<rparr>"

definition accrualStep :: "time \<Rightarrow> Loan \<Rightarrow> Loan" where
  "accrualStep now l =
     (if Status l = ''active'' \<and> accrualDue (Truncate now hours24) l
      then accruedRow now (Truncate now hours24) l else l)"

section \<open>Example data\<close>

text \<open>
  The loan of the repository's tests (principal 1000, rate 0.10) as CreateLoan stores it,
  with its disbursement.
\<close>

definition loanA :: Loan where
  "loanA = \<lparr>ID = 0, CustomerKey = ''cust123'', Principal = 1000, Balance = 1000,
             BaseInterestRate = 1 / 10, InterestRateVariance = 0, InterestRate = 1 / 10,
             Status = ''active'', CreatedAt = 5, UpdatedAt = 5,
             LastInterestCalculationDate = None, StatementCycleDay = 3,
             AccruedInterest = 0\<rparr>"

definition disbursementA :: Transaction where
  "disbursementA = \<lparr>TxID = 1, LoanID = 0, Amount = 1000,
                     Type = TransactionTypeDisbursement, Timestamp = 5\<rparr>"

definition stateA :: State where
  "stateA = \<lparr>loans = [loanA], transactions = [disbursementA], faults = [], uuids = 2\<rparr>"

section \<open>Store calls to come\<close>

text \<open>
  \<open>willFail k st\<close>: the \<open>k\<close>-th store call from now on (counted from 0) is answered
  with a driver error; \<open>skipCalls n st\<close>: the state once \<open>n\<close> store calls have taken
  their flags.
\<close>

definition willFail :: "nat \<Rightarrow> State \<Rightarrow> bool" where
  "willFail k st \<longleftrightarrow> k < length (faults st) \<and> faults st ! k"

definition skipCalls :: "nat \<Rightarrow> State \<Rightarrow> State" where
  "skipCalls n st = st\<lparr>faults := drop n (faults st)\<rparr>"

section \<open>What one capitalization pass does to a row\<close>

text \<open>
  \<open>capitalizationDue todayDay loan\<close>: the loop body of ApplyMonthlyInterest capitalizes
  this loan (it is the statement day and accrued interest is positive);
  \<open>capitalizedRow\<close> is the loan it writes and \<open>interestTx\<close> the transaction it appends.
\<close>

definition capitalizationDue :: "int \<Rightarrow> Loan \<Rightarrow> bool" where
  "capitalizationDue todayDay loan \<longleftrightarrow>
     StatementCycleDay loan = todayDay \<and> AccruedInterest loan > 0"

definition capitalizedRow :: "time \<Rightarrow> Loan \<Rightarrow> Loan" where
  "capitalizedRow now loan =
     loan\<lparr>Balance := Balance loan + AccruedInterest loan, UpdatedAt := now,
          AccruedInterest := 0\<rparr>"

definition interestTx :: "time \<Rightarrow> uuid \<Rightarrow> Loan \<Rightarrow> Transaction" where
  "interestTx now j loan =
     \<lparr>TxID = j, LoanID = ID loan, Amount = AccruedInterest loan,
      Type = TransactionTypeInterest, Timestamp = now\<rparr>"

text \<open>
  The same loan after a payment of 400.00 (the state of TestRecordPayment before the loan
  is paid off), and the empty store with a schedule of driver errors.
\<close>

definition loanB :: Loan where
  "loanB = loanA\<lparr>Balance := 600, UpdatedAt := 7\<rparr>"

definition paymentB :: Transaction where
  "paymentB = \<lparr>TxID = 2, LoanID = 0, Amount = 400,
                Type = TransactionTypePayment, Timestamp = 7\<rparr>"

definition stateB :: State where
  "stateB = \<lparr>loans = [loanB], transactions = [disbursementA, paymentB], faults = [],
              uuids = 3\<rparr>"

text \<open>
  \<open>interestTxs now j xs\<close>: the interest transactions of the loans \<open>xs\<close>, in their
  order, with the identifiers \<open>j\<close>, \<open>j + 1\<close>, ... that \<open>uuid.New()\<close> hands out;
  \<open>capitalizationStep\<close>: the effect of one capitalization pass on a row of the table.
\<close>

fun interestTxs :: "time \<Rightarrow> uuid \<Rightarrow> Loan list \<Rightarrow> Transaction list" where
  "interestTxs now j [] = []"
| "interestTxs now j (x # xs) = interestTx now j x # interestTxs now (Suc j) xs"

definition capitalizationStep :: "time \<Rightarrow> int \<Rightarrow> Loan \<Rightarrow> Loan" where
  "capitalizationStep now todayDay l =
     (if Status l = ''active'' \<and> capitalizationDue todayDay l
      then capitalizedRow now l else l)"

section \<open>What a loop body may change\<close>

text \<open>
  \<open>touchesOnly y st st'\<close>: from \<open>st\<close> to \<open>st'\<close> transactions were at most appended,
  and the loans are the same except possibly for the row with the id of \<open>y\<close>, which
  then keeps the id and the status of \<open>y\<close>.
\<close>

definition touchesOnly :: "Loan \<Rightarrow> State \<Rightarrow> State \<Rightarrow> bool" where
  "touchesOnly y st st' \<longleftrightarrow>
     (\<exists>new. transactions st' = transactions st @ new)
     \<and> (loans st' = loans st
        \<or> (\<exists>r. ID r = ID y \<and> Status r = Status y
               \<and> loans st' =
                   map (\<lambda>l. if ID l = ID y then r\<lparr>CreatedAt := CreatedAt l\<rparr> else l) (loans st)))"

text \<open>The same loan once it has been paid off.\<close>

definition loanD :: Loan where
  "loanD = loanB\<lparr>Balance := 0, Status := ''closed'', UpdatedAt := 10\<rparr>"

definition stateD :: State where
  "stateD = \<lparr>loans = [loanD],
              transactions = [disbursementA, paymentB,
                 \<lparr>TxID = 3, LoanID = 0, Amount = 600, Type = TransactionTypePayment,
                  Timestamp = 10\<rparr>],
              faults = [], uuids = 4\<rparr>"

text \<open>
  The loan of TestApplyMonthlyInterest: 5.00 of accrued interest on a balance of 1000.00,
  on its statement day (day 3).
\<close>

definition loanC :: Loan where
  "loanC = loanA\<lparr>AccruedInterest := 5\<rparr>"

definition stateC :: State where
  "stateC = \<lparr>loans = [loanC], transactions = [disbursementA], faults = [], uuids = 2\<rparr>"

section \<open>Conservation\<close>

text \<open>
  \<open>conservationClaimed\<close> is the identity as the specification states it;
  \<open>balanced\<close> is the identity without the accrued interest. \<open>noOverpayment st ops\<close>:
  in the run of \<open>ops\<close> from \<open>st\<close>, no payment on an active loan exceeds the balance
  the loan has when the payment is made.
\<close>

definition conservationClaimed :: "State \<Rightarrow> bool" where
  "conservationClaimed st \<longleftrightarrow> ledgerTotal st = sumBalances st + sumAccrued st"

definition balanced :: "State \<Rightarrow> bool" where
  "balanced st \<longleftrightarrow> ledgerTotal st = sumBalances st"

fun withinBalance :: "State \<Rightarrow> Op \<Rightarrow> bool" where
  "withinBalance st (OpRecordPayment now loanID amount) =
     (case selectLoan loanID (loans st) of
        None \<Rightarrow> True
      | Some l \<Rightarrow> Status l \<noteq> ''active'' \<or> amount \<le> Balance l)"
| "withinBalance st _ = True"

fun noOverpayment :: "State \<Rightarrow> Op list \<Rightarrow> bool" where
  "noOverpayment st [] = True"
| "noOverpayment st (op # ops) = (withinBalance st op \<and> noOverpayment (step st op) ops)"

section \<open>Auxiliary facts\<close>


subsection \<open>Rows selected by id\<close>

lemma selectLoan_Some_D: "selectLoan i ls = Some l \<Longrightarrow> l \<in> set ls \<and> ID l = i"
  unfolding selectLoan_def by (induction ls) (auto split: if_splits)

lemma selectLoan_None_iff: "selectLoan i ls = None \<longleftrightarrow> i \<notin> set (map ID ls)"
  unfolding selectLoan_def by (induction ls) auto

lemma selectLoan_distinct:
  "distinct (map ID ls) \<Longrightarrow> l \<in> set ls \<Longrightarrow> selectLoan (ID l) ls = Some l"
  unfolding selectLoan_def by (induction ls) auto

lemma selectLoan_append:
  "selectLoan i (ls @ ms) = (case selectLoan i ls of None \<Rightarrow> selectLoan i ms | Some l \<Rightarrow> Some l)"
  unfolding selectLoan_def by (induction ls) auto

lemma selectLoan_map_other:
  "i \<noteq> j \<Longrightarrow> selectLoan i (map (\<lambda>l. if ID l = j then F l else l) ls) = selectLoan i ls"
  if "\<And>l. ID l = j \<Longrightarrow> ID (F l) = j"
  using that unfolding selectLoan_def by (induction ls) auto

lemma map_ID_update:
  "(\<And>l. ID l = j \<Longrightarrow> ID (F l) = j) \<Longrightarrow> map ID (map (\<lambda>l. if ID l = j then F l else l) ls) = map ID ls"
  by (induction ls) auto

lemma same_ID_same_row:
  "distinct (map ID ls) \<Longrightarrow> x \<in> set ls \<Longrightarrow> l \<in> set ls \<Longrightarrow> ID l = ID x \<Longrightarrow> l = x"
  by (meson distinct_map inj_onD)

lemma update_row_distinct:
  assumes "distinct (map ID ls)" and "x \<in> set ls"
  shows "map (\<lambda>l. if ID l = ID x then F l else l) ls = map (\<lambda>l. if l = x then F x else l) ls"
  by (rule map_cong [OF refl]) (use assms same_ID_same_row in auto)


subsection \<open>Store calls that do not fail\<close>

lemma db_call_nofault: "faults st = [] \<Longrightarrow> db_call st = (False, st)"
  by (simp add: db_call_def)

lemma store_UpdateLoan_ok:
  "faults st = [] \<Longrightarrow> ID loan \<in> set (map ID (loans st)) \<Longrightarrow>
   store_UpdateLoan loan st =
     (None, st\<lparr>loans := map (\<lambda>l. if ID l = ID loan then loan\<lparr>CreatedAt := CreatedAt l\<rparr> else l) (loans st)\<rparr>)"
  by (simp add: store_UpdateLoan_def db_call_nofault)

lemma store_CreateTransaction_ok:
  "faults st = [] \<Longrightarrow> TxID tx \<notin> set (map TxID (transactions st)) \<Longrightarrow>
   LoanID tx \<in> set (map ID (loans st)) \<Longrightarrow>
   store_CreateTransaction tx st = (None, st\<lparr>transactions := transactions st @ [tx]\<rparr>)"
  by (simp add: store_CreateTransaction_def db_call_nofault)

lemma store_CreateLoan_ok:
  "faults st = [] \<Longrightarrow> ID loan \<notin> set (map ID (loans st)) \<Longrightarrow>
   store_CreateLoan loan st = (None, st\<lparr>loans := loans st @ [loan]\<rparr>)"
  by (simp add: store_CreateLoan_def db_call_nofault)

lemma store_GetLoan_ok:
  "faults st = [] \<Longrightarrow> selectLoan i (loans st) = Some l \<Longrightarrow> store_GetLoan i st = (Inr l, st)"
  by (simp add: store_GetLoan_def db_call_nofault)

lemma store_GetAllActiveLoans_ok:
  "faults st = [] \<Longrightarrow>
   store_GetAllActiveLoans st = (Inr (filter (\<lambda>l. Status l = ''active'') (loans st)), st)"
  by (simp add: store_GetAllActiveLoans_def db_call_nofault)

subsection \<open>Daily accrual without store failures\<close>

lemma ID_accruedRow [simp]: "ID (accruedRow now today l) = ID l"
  by (simp add: accruedRow_def)

lemma accrueLoan_nofault:
  assumes "faults st = []" and "distinct (map ID (loans st))" and "x \<in> set (loans st)"
  shows "accrueLoan now today st x =
           st\<lparr>loans := map (\<lambda>l. if l = x \<and> accrualDue today x then accruedRow now today x else l)
                            (loans st)\<rparr>"
proof (cases "accrualDue today x")
  case False
  then have "accrueLoan now today st x = st"
    by (auto simp: accrueLoan_def accrualDue_def Let_def split: option.splits)
  with False show ?thesis by simp
next
  case True
  have in_ids: "ID x \<in> set (map ID (loans st))"
    using assms(3) by simp
  have "accrueLoan now today st x = snd (store_UpdateLoan (accruedRow now today x) st)"
    using True by (auto simp: accrueLoan_def accrualDue_def accruedRow_def Let_def split: option.splits)
  also have "\<dots> = st\<lparr>loans := map (\<lambda>l. if ID l = ID x
                                          then (accruedRow now today x)\<lparr>CreatedAt := CreatedAt l\<rparr>
                                          else l) (loans st)\<rparr>"
    using assms(1) in_ids by (simp add: store_UpdateLoan_ok)
  also have "map (\<lambda>l. if ID l = ID x then (accruedRow now today x)\<lparr>CreatedAt := CreatedAt l\<rparr> else l)
                 (loans st)
             = map (\<lambda>l. if l = x then (accruedRow now today x)\<lparr>CreatedAt := CreatedAt x\<rparr> else l)
                 (loans st)"
    by (rule update_row_distinct [OF assms(2,3)])
  also have "(accruedRow now today x)\<lparr>CreatedAt := CreatedAt x\<rparr> = accruedRow now today x"
    by (simp add: accruedRow_def)
  finally show ?thesis using True by simp
qed

lemma foldl_accrueLoan_nofault:
  assumes "faults st = []" and "distinct (map ID (loans st))"
    and "set xs \<subseteq> set (loans st)" and "distinct xs"
  shows "foldl (accrueLoan now today) st xs =
           st\<lparr>loans := map (\<lambda>l. if l \<in> set xs \<and> accrualDue today l then accruedRow now today l else l)
                            (loans st)\<rparr>"
  using assms
proof (induction xs arbitrary: st)
  case Nil
  then show ?case by simp
next
  case (Cons x xs)
  let ?h = "\<lambda>l. if l = x \<and> accrualDue today x then accruedRow now today x else l"
  let ?g = "\<lambda>l. if l \<in> set xs \<and> accrualDue today l then accruedRow now today l else l"
  let ?st1 = "st\<lparr>loans := map ?h (loans st)\<rparr>"
  have x_in: "x \<in> set (loans st)" and xs_in: "set xs \<subseteq> set (loans st)"
    and x_notin: "x \<notin> set xs" and dxs: "distinct xs"
    using Cons.prems by auto
  have other: "ID y \<noteq> ID x" if "y \<in> set xs" for y
    using same_ID_same_row [OF Cons.prems(2) x_in, of y] that xs_in x_notin by auto
  have step: "accrueLoan now today st x = ?st1"
    by (rule accrueLoan_nofault [OF Cons.prems(1,2) x_in])
  have ids: "map ID (loans ?st1) = map ID (loans st)"
    by (simp add: o_def if_distrib cong: if_cong)
  have "foldl (accrueLoan now today) ?st1 xs = ?st1\<lparr>loans := map ?g (loans ?st1)\<rparr>"
  proof (rule Cons.IH)
    show "faults ?st1 = []" using Cons.prems(1) by simp
    show "distinct (map ID (loans ?st1))" using Cons.prems(2) by (simp only: ids)
    show "set xs \<subseteq> set (loans ?st1)"
    proof
      fix y assume y: "y \<in> set xs"
      then have "y \<in> set (loans st)" "y \<noteq> x" using xs_in x_notin by auto
      then show "y \<in> set (loans ?st1)" by (auto simp: image_iff intro!: bexI [of _ y])
    qed
    show "distinct xs" by (rule dxs)
  qed
  moreover have "map ?g (map ?h (loans st)) =
                 map (\<lambda>l. if l \<in> set (x # xs) \<and> accrualDue today l then accruedRow now today l else l) (loans st)"
  proof -
    have "accruedRow now today x \<notin> set xs"
      using other [of "accruedRow now today x"] by auto
    then show ?thesis using x_notin by (auto simp: map_eq_conv)
  qed
  ultimately show ?case using step by simp
qed


lemma ID_accrualStep [simp]: "ID (accrualStep now l) = ID l"
  by (simp add: accrualStep_def)

lemma distinct_rows: "distinct (map ID ls) \<Longrightarrow> distinct ls"
  by (simp add: distinct_map)

lemma CalculateDailyInterest_nofault:
  assumes "faults st = []" and "distinct (map ID (loans st))"
  shows "CalculateDailyInterest now st = st\<lparr>loans := map (accrualStep now) (loans st)\<rparr>"
proof -
  let ?xs = "filter (\<lambda>l. Status l = ''active'') (loans st)"
  let ?today = "Truncate now hours24"
  have "CalculateDailyInterest now st = foldl (accrueLoan now ?today) st ?xs"
    by (simp add: CalculateDailyInterest_def store_GetAllActiveLoans_ok [OF assms(1)])
  also have "\<dots> = st\<lparr>loans := map (\<lambda>l. if l \<in> set ?xs \<and> accrualDue ?today l
                                          then accruedRow now ?today l else l) (loans st)\<rparr>"
    by (rule foldl_accrueLoan_nofault [OF assms]) (use assms(2) in \<open>auto simp: distinct_rows\<close>)
  also have "map (\<lambda>l. if l \<in> set ?xs \<and> accrualDue ?today l then accruedRow now ?today l else l) (loans st)
             = map (accrualStep now) (loans st)"
    by (rule map_cong) (auto simp: accrualStep_def)
  finally show ?thesis .
qed

lemma selectLoan_map:
  "(\<And>l. ID (f l) = ID l) \<Longrightarrow> selectLoan i (map f ls) = map_option f (selectLoan i ls)"
  unfolding selectLoan_def by (induction ls) auto

lemma Truncate_idem: "Truncate (Truncate t d) d = Truncate t d"
  by (simp add: Truncate_def)

lemma accrualStep_same_date:
  assumes "Truncate t hours24 = Truncate now hours24"
  shows "accrualStep t (accrualStep now l) = accrualStep now l"
  using assms
  by (auto simp: accrualStep_def accrualDue_def accruedRow_def Truncate_idem split: option.splits)

lemma CalculateDailyInterest_again:
  assumes "faults st = []" and "distinct (map ID (loans st))"
    and "Truncate t hours24 = Truncate now hours24"
  shows "CalculateDailyInterest t (CalculateDailyInterest now st) = CalculateDailyInterest now st"
proof -
  let ?st1 = "st\<lparr>loans := map (accrualStep now) (loans st)\<rparr>"
  have ids: "map ID (loans ?st1) = map ID (loans st)"
    by (simp add: o_def)
  have "CalculateDailyInterest t ?st1 = ?st1\<lparr>loans := map (accrualStep t) (loans ?st1)\<rparr>"
    by (rule CalculateDailyInterest_nofault) (use assms(1,2) in \<open>simp_all only: ids\<close>, simp)
  then show ?thesis
    using assms by (simp add: CalculateDailyInterest_nofault o_def accrualStep_same_date)
qed


lemma Div_tenth: "Div (1 / 10) daysInYear = 2739726027397 / 10 ^ 16"
  by code_simp

lemma DivRound_grid: "\<exists>n::int. DivRound d d2 p = of_int n / 10 ^ p"
proof -
  have "\<exists>n::int. (of_int m - 1 :: rat) / 10 ^ p = of_int n / 10 ^ p" for m :: int
    by (rule exI [of _ "m - 1"]) simp
  moreover have "\<exists>n::int. (of_int m + 1 :: rat) / 10 ^ p = of_int n / 10 ^ p" for m :: int
    by (rule exI [of _ "m + 1"]) simp
  ultimately show ?thesis
    unfolding DivRound_def Let_def by auto
qed

lemma DivRound_nearest: "\<bar>DivRound d d2 p - d / d2\<bar> \<le> 1 / (2 * 10 ^ p)"
proof -
  define s where "s = d / d2 * 10 ^ p"
  define q where "q = (if 0 \<le> s then \<lfloor>s\<rfloor> else \<lceil>s\<rceil>)"
  define r where "r = \<bar>s - of_int q\<bar>"
  have quot: "d / d2 = s / 10 ^ p" by (simp add: s_def)
  have r_lt: "r < 1"
    using floor_correct [of s] le_of_int_ceiling [of s] ceiling_correct [of s]
    unfolding r_def q_def by simp
  have sgn: "d * d2 < 0 \<longleftrightarrow> s < 0"
    unfolding s_def by (simp add: mult_less_0_iff divide_less_0_iff zero_less_mult_iff)
  have key: "\<bar>x / 10 ^ p - s / 10 ^ p\<bar> \<le> 1 / (2 * 10 ^ p)" if "\<bar>s - x\<bar> \<le> 1 / 2" for x :: rat
  proof -
    have "\<bar>x / 10 ^ p - s / 10 ^ p\<bar> = \<bar>s - x\<bar> / 10 ^ p"
      by (simp add: diff_divide_distrib [symmetric] abs_minus_commute)
    also have "\<dots> \<le> (1 / 2) / 10 ^ p"
      by (rule divide_right_mono [OF that]) simp
    finally show ?thesis by simp
  qed
  have res: "DivRound d d2 p =
        (if 2 * r < 1 then of_int q / 10 ^ p
         else if d * d2 < 0 then (of_int q - 1) / 10 ^ p else (of_int q + 1) / 10 ^ p)"
    unfolding DivRound_def Let_def r_def q_def s_def by simp
  show ?thesis
  proof (cases "2 * r < 1")
    case True
    then have "\<bar>s - of_int q\<bar> \<le> 1 / 2" unfolding r_def by simp
    from key [OF this] True show ?thesis by (simp add: res quot)
  next
    case False
    show ?thesis
    proof (cases "s < 0")
      case True
      then have "of_int q - s = r"
        using le_of_int_ceiling [of s] unfolding r_def q_def by simp
      then have "\<bar>s - (of_int q - 1)\<bar> \<le> 1 / 2" using False r_lt by (simp add: abs_le_iff)
      from key [OF this] False True show ?thesis by (simp add: res quot sgn)
    next
      case nonneg: False
      then have "s - of_int q = r"
        using of_int_floor_le [of s] unfolding r_def q_def by simp
      then have "\<bar>s - (of_int q + 1)\<bar> \<le> 1 / 2" using False r_lt by (simp add: abs_le_iff)
      from key [OF this] False nonneg show ?thesis by (simp add: res quot sgn)
    qed
  qed
qed

section \<open>Daily accrual (claims C3 and C4)\<close>

lemmas example_defs = loanA_def disbursementA_def stateA_def

lemma wf_stateA: "wf stateA"
  by (simp add: wf_def example_defs)

lemma CalculateDailyInterest_row:
  assumes "wf st" and "faults st = []" and "selectLoan i (loans st) = Some l"
  shows "selectLoan i (loans (CalculateDailyInterest now st)) = Some (accrualStep now l)"
  using assms by (simp add: wf_def CalculateDailyInterest_nofault selectLoan_map)

text \<open>
  Claim C4, as amended. For an active loan that has not been accrued on the date of
  \<open>now\<close>, one accrual pass (no store call failing) adds
  \<open>Balance * Div(InterestRate, 365)\<close> to \<open>AccruedInterest\<close> when that amount is
  positive, and leaves the loan alone otherwise. The quotient is the decimal library's:
  a multiple of \<open>10^-16\<close> that differs from the exact quotient by at most half a unit
  of the 16th decimal place. The engine rounds nothing itself, and the product and the
  sum are exact.
\<close>

theorem daily_interest_amount:
  assumes "wf st" and "faults st = []"
    and "selectLoan i (loans st) = Some l" and "Status l = ''active''"
    and "case LastInterestCalculationDate l of
           None \<Rightarrow> True | Some d \<Rightarrow> Truncate d hours24 \<noteq> Truncate now hours24"
  shows "(\<exists>n::int. Div (InterestRate l) daysInYear = of_int n / 10 ^ 16)
         \<and> \<bar>Div (InterestRate l) daysInYear - InterestRate l / 365\<bar> \<le> 1 / (2 * 10 ^ 16)
         \<and> selectLoan i (loans (CalculateDailyInterest now st)) =
             Some (if Balance l * Div (InterestRate l) daysInYear > 0
                   then l\<lparr>AccruedInterest :=
                            AccruedInterest l + Balance l * Div (InterestRate l) daysInYear,
                          UpdatedAt := now,
                          LastInterestCalculationDate := Some (Truncate now hours24)\<rparr>
                   else l)"
proof (intro conjI)
  show "\<exists>n::int. Div (InterestRate l) daysInYear = of_int n / 10 ^ 16"
    using DivRound_grid [of "InterestRate l" daysInYear 16]
    by (simp add: Div_def DivisionPrecision_def)
  show "\<bar>Div (InterestRate l) daysInYear - InterestRate l / 365\<bar> \<le> 1 / (2 * 10 ^ 16)"
    using DivRound_nearest [of "InterestRate l" daysInYear 16]
    by (simp add: Div_def DivisionPrecision_def daysInYear_def)
  show "selectLoan i (loans (CalculateDailyInterest now st)) =
             Some (if Balance l * Div (InterestRate l) daysInYear > 0
                   then l\<lparr>AccruedInterest :=
                            AccruedInterest l + Balance l * Div (InterestRate l) daysInYear,
                          UpdatedAt := now,
                          LastInterestCalculationDate := Some (Truncate now hours24)\<rparr>
                   else l)"
    using assms(4,5)
    by (auto simp: CalculateDailyInterest_row [OF assms(1-3)] accrualStep_def accrualDue_def
          accruedRow_def split: option.splits)
qed

text \<open>
  Witness for C4: the loan with balance 1000.00 and rate 0.10 accrues 0.2739726027397
  in one day.
\<close>

theorem daily_interest_amount_witness:
  "wf stateA \<and> faults stateA = [] \<and> selectLoan 0 (loans stateA) = Some loanA
   \<and> Status loanA = ''active'' \<and> LastInterestCalculationDate loanA = None
   \<and> selectLoan 0 (loans (CalculateDailyInterest 100 stateA)) =
       Some (loanA\<lparr>AccruedInterest := 2739726027397 / 10 ^ 13, UpdatedAt := 100,
                   LastInterestCalculationDate := Some 0\<rparr>)"
  using daily_interest_amount [of stateA 0 loanA 100] Div_tenth wf_stateA
  by (simp add: example_defs selectLoan_def Truncate_def hours24_def)

text \<open>
  Counterexample to C4 as stated: for balance 1000.00 and rate 0.10 the engine accrues
  0.2739726027397, which is not the exact \<open>1000 * (0.10 / 365) = 20 / 73\<close>: the
  quotient \<open>0.10 / 365\<close> has been rounded to 16 decimal places.
\<close>

theorem exact_quotient_counterexample:
  "map_option AccruedInterest (selectLoan 0 (loans (CalculateDailyInterest 100 stateA)))
     = Some (2739726027397 / 10 ^ 13)
   \<and> (2739726027397 / 10 ^ 13 :: rat) \<noteq> Balance loanA * (InterestRate loanA / 365)"
  using Div_tenth
  by (simp add: example_defs CalculateDailyInterest_def store_GetAllActiveLoans_def db_call_def
        accrueLoan_def store_UpdateLoan_def selectLoan_def Truncate_def hours24_def)

lemma CalculateDailyInterest_repeat:
  assumes "faults st = []" and "distinct (map ID (loans st))"
    and "\<forall>t\<in>set ts. Truncate t hours24 = Truncate now hours24"
  shows "foldl (\<lambda>s t. CalculateDailyInterest t s) (CalculateDailyInterest now st) ts
           = CalculateDailyInterest now st"
  using assms(3)
  by (induction ts) (simp_all add: CalculateDailyInterest_again [OF assms(1,2)])

text \<open>
  Claim C3. On a date on which an active loan has not been accrued yet and has positive
  daily interest, the first accrual pass (no store call failing) adds the daily interest
  once and records the date; every further pass at an instant \<open>t\<close> of the same date
  leaves the loan, and indeed the whole state, as the first pass left it.
\<close>

theorem daily_accrual_idempotent:
  assumes "wf st" and "faults st = []"
    and "selectLoan i (loans st) = Some l" and "Status l = ''active''"
    and "case LastInterestCalculationDate l of
           None \<Rightarrow> True | Some d \<Rightarrow> Truncate d hours24 \<noteq> Truncate now hours24"
    and "Balance l * Div (InterestRate l) daysInYear > 0"
    and "\<forall>t\<in>set ts. Truncate t hours24 = Truncate now hours24"
  shows "selectLoan i (loans (CalculateDailyInterest now st)) =
           Some (l\<lparr>AccruedInterest :=
                     AccruedInterest l + Balance l * Div (InterestRate l) daysInYear,
                   UpdatedAt := now,
                   LastInterestCalculationDate := Some (Truncate now hours24)\<rparr>)
         \<and> foldl (\<lambda>s t. CalculateDailyInterest t s) (CalculateDailyInterest now st) ts
             = CalculateDailyInterest now st"
proof
  show "selectLoan i (loans (CalculateDailyInterest now st)) =
           Some (l\<lparr>AccruedInterest :=
                     AccruedInterest l + Balance l * Div (InterestRate l) daysInYear,
                   UpdatedAt := now,
                   LastInterestCalculationDate := Some (Truncate now hours24)\<rparr>)"
    using assms(4-6)
    by (auto simp: CalculateDailyInterest_row [OF assms(1-3)] accrualStep_def accrualDue_def
          accruedRow_def split: option.splits)
  show "foldl (\<lambda>s t. CalculateDailyInterest t s) (CalculateDailyInterest now st) ts
             = CalculateDailyInterest now st"
    using assms(1) by (intro CalculateDailyInterest_repeat assms(2,7)) (simp add: wf_def)
qed

text \<open>
  Witness for C3: three passes on day 0 over the example loan; the second and the third
  change nothing.
\<close>

theorem daily_accrual_idempotent_witness:
  "wf stateA \<and> faults stateA = [] \<and> selectLoan 0 (loans stateA) = Some loanA
   \<and> Status loanA = ''active'' \<and> LastInterestCalculationDate loanA = None
   \<and> Balance loanA * Div (InterestRate loanA) daysInYear > 0
   \<and> Truncate 200 hours24 = Truncate 100 hours24
   \<and> Truncate 86399999999999 hours24 = Truncate 100 hours24
   \<and> selectLoan 0 (loans (CalculateDailyInterest 100 stateA)) =
       Some (loanA\<lparr>AccruedInterest := 2739726027397 / 10 ^ 13, UpdatedAt := 100,
                   LastInterestCalculationDate := Some 0\<rparr>)
   \<and> CalculateDailyInterest 86399999999999
        (CalculateDailyInterest 200 (CalculateDailyInterest 100 stateA))
       = CalculateDailyInterest 100 stateA"
  using daily_accrual_idempotent [of stateA 0 loanA 100 "[200, 86399999999999]"] Div_tenth wf_stateA
  by (simp add: example_defs selectLoan_def Truncate_def hours24_def)

section \<open>Single operations, without and with store failures\<close>


lemma wf_distinct: "wf st \<Longrightarrow> distinct (map ID (loans st))"
  by (simp add: wf_def)

lemma wf_fresh_loan: "wf st \<Longrightarrow> uuids st \<notin> set (map ID (loans st))"
  by (auto simp: wf_def list_all_iff)

lemma wf_fresh_tx: "wf st \<Longrightarrow> uuids st \<notin> set (map TxID (transactions st))"
  by (auto simp: wf_def list_all_iff)

lemma wf_fresh_tx_later: "wf st \<Longrightarrow> uuids st \<le> j \<Longrightarrow> j \<notin> set (map TxID (transactions st))"
  by (auto simp: wf_def list_all_iff)

lemma wf_fresh_loan_later: "wf st \<Longrightarrow> uuids st \<le> j \<Longrightarrow> j \<notin> set (map ID (loans st))"
  by (auto simp: wf_def list_all_iff)

lemma CreateLoan_ok:
  assumes "wf st" and "faults st = []"
  shows "CreateLoan now v customerKey principal' baseRate variance st =
    (let loan = \<lparr>ID = uuids st, CustomerKey = customerKey, Principal = principal',
                 Balance = principal', BaseInterestRate = baseRate,
                 InterestRateVariance = variance, InterestRate = baseRate + variance,
                 Status = ''active'', CreatedAt = now, UpdatedAt = now,
                 LastInterestCalculationDate = None,
                 StatementCycleDay = assignStatementCycleDay v, AccruedInterest = 0\<rparr>
     in (Inr loan,
         st\<lparr>loans := loans st @ [loan],
            transactions := transactions st @ [\<lparr>TxID = Suc (uuids st), LoanID = uuids st,
                               Amount = principal', Type = TransactionTypeDisbursement,
                               Timestamp = now\<rparr>],
            uuids := Suc (Suc (uuids st))\<rparr>))"
  using wf_fresh_loan_later [OF assms(1), of "uuids st"]
    wf_fresh_tx_later [OF assms(1), of "Suc (uuids st)"] assms(2)
  by (simp add: CreateLoan_def uuid_New_def store_CreateLoan_def store_CreateTransaction_def
        db_call_def Let_def)

lemma assignStatementCycleDay_range:
  "1 \<le> assignStatementCycleDay v \<and> assignStatementCycleDay v \<le> 28"
  by (simp add: assignStatementCycleDay_def Intn_def minStatementDay_def maxStatementDay_def)




lemma ID_applyPayment [simp]: "ID (applyPayment now amount l) = ID l"
  by (simp add: applyPayment_def Let_def)

lemma CreatedAt_applyPayment [simp]: "CreatedAt (applyPayment now amount l) = CreatedAt l"
  by (simp add: applyPayment_def Let_def)

lemma map_ID_replace:
  "ID r = ID l \<Longrightarrow> map ID (map (\<lambda>x. if x = l then r else x) ls) = map ID ls"
  by (induction ls) auto

lemma RecordPayment_ok:
  assumes "wf st" and "faults st = []"
    and "selectLoan i (loans st) = Some l" and "Status l = ''active''"
  shows "RecordPayment now i amount st =
    (let tx = \<lparr>TxID = uuids st, LoanID = i, Amount = amount,
                 Type = TransactionTypePayment, Timestamp = now\<rparr>
     in (Inr tx,
         st\<lparr>loans := map (\<lambda>x. if x = l then applyPayment now amount l else x) (loans st),
            transactions := transactions st @ [tx],
            uuids := Suc (uuids st)\<rparr>))"
proof -
  have l_in: "l \<in> set (loans st)" and l_id: "ID l = i"
    using selectLoan_Some_D [OF assms(3)] by simp_all
  have d: "distinct (map ID (loans st))" by (rule wf_distinct [OF assms(1)])
  define loan2 where "loan2 = applyPayment now amount l"
  define st1 where "st1 = st\<lparr>loans := map (\<lambda>x. if x = l then loan2 else x) (loans st)\<rparr>"
  define tx where "tx = \<lparr>TxID = uuids st, LoanID = i, Amount = amount,
                 Type = TransactionTypePayment, Timestamp = now\<rparr>"
  have id2: "ID loan2 = i" by (simp add: loan2_def l_id)
  have get: "store_GetLoan i st = (Inr l, st)"
    by (rule store_GetLoan_ok [OF assms(2,3)])
  have m: "map (\<lambda>x. if ID x = ID loan2 then loan2\<lparr>CreatedAt := CreatedAt x\<rparr> else x) (loans st)
           = map (\<lambda>x. if x = l then loan2 else x) (loans st)"
  proof -
    have "map (\<lambda>x. if ID x = ID l then loan2\<lparr>CreatedAt := CreatedAt x\<rparr> else x) (loans st)
          = map (\<lambda>x. if x = l then loan2\<lparr>CreatedAt := CreatedAt l\<rparr> else x) (loans st)"
      by (rule update_row_distinct [OF d l_in])
    moreover have "loan2\<lparr>CreatedAt := CreatedAt l\<rparr> = loan2"
      using CreatedAt_applyPayment [of now amount l] by (simp add: loan2_def)
    moreover have "ID loan2 = ID l" by (simp add: loan2_def)
    ultimately show ?thesis by (simp only:)
  qed
  have upd: "store_UpdateLoan loan2 st = (None, st1)"
    unfolding st1_def m [symmetric]
    by (rule store_UpdateLoan_ok [OF assms(2)]) (use l_in in \<open>simp add: id2 l_id [symmetric]\<close>)
  have ids1: "map ID (loans st1) = map ID (loans st)"
    unfolding st1_def using map_ID_replace [of loan2 l "loans st"] by (simp add: id2 l_id)
  have new: "uuid_New st1 = (uuids st, st1\<lparr>uuids := Suc (uuids st)\<rparr>)"
    by (simp add: uuid_New_def st1_def)
  have f1: "LoanID tx \<in> set (map ID (loans (st1\<lparr>uuids := Suc (uuids st)\<rparr>)))"
    using l_in ids1 by (simp add: tx_def l_id [symmetric])
  have f2: "TxID tx \<notin> set (map TxID (transactions (st1\<lparr>uuids := Suc (uuids st)\<rparr>)))"
    using wf_fresh_tx [OF assms(1)] by (simp add: tx_def st1_def)
  have f3: "faults (st1\<lparr>uuids := Suc (uuids st)\<rparr>) = []"
    using assms(2) by (simp add: st1_def)
  have ins: "store_CreateTransaction tx (st1\<lparr>uuids := Suc (uuids st)\<rparr>)
      = (None, st1\<lparr>uuids := Suc (uuids st),
                      transactions := transactions (st1\<lparr>uuids := Suc (uuids st)\<rparr>) @ [tx]\<rparr>)"
    by (rule store_CreateTransaction_ok [OF f3 f2 f1])
  have "RecordPayment now i amount st
        = (Inr tx, st1\<lparr>uuids := Suc (uuids st),
                      transactions := transactions (st1\<lparr>uuids := Suc (uuids st)\<rparr>) @ [tx]\<rparr>)"
    unfolding RecordPayment_def get using assms(4)
    by (simp add: Let_def loan2_def [symmetric] upd new id2 ins [unfolded tx_def])
       (simp add: tx_def)
  then show ?thesis
    by (simp add: Let_def st1_def tx_def loan2_def)
qed


lemma selectLoan_replace:
  assumes "distinct (map ID ls)" and "selectLoan i ls = Some l" and "ID r = i"
  shows "selectLoan j (map (\<lambda>x. if x = l then r else x) ls)
           = (if j = i then Some r else selectLoan j ls)"
proof -
  have l: "l \<in> set ls" "ID l = i" using selectLoan_Some_D [OF assms(2)] by simp_all
  have ids: "ID (if x = l then r else x) = ID x" for x
    using assms(3) l(2) by simp
  have "selectLoan j (map (\<lambda>x. if x = l then r else x) ls)
          = map_option (\<lambda>x. if x = l then r else x) (selectLoan j ls)"
    by (rule selectLoan_map) (rule ids)
  moreover have "y \<noteq> l" if "selectLoan j ls = Some y" "j \<noteq> i" for y
    using selectLoan_Some_D [OF that(1)] that(2) l(2) by auto
  ultimately show ?thesis
    using assms(2) by (cases "selectLoan j ls") auto
qed

lemma RecordPayment_closed:
  assumes "faults st = []" and "selectLoan i (loans st) = Some l" and "Status l \<noteq> ''active''"
  shows "RecordPayment now i amount st = (Inl LoanNotActive, st)"
  using assms(3) by (simp add: RecordPayment_def store_GetLoan_ok [OF assms(1,2)])


lemma db_call_willFail: "db_call st = (willFail 0 st, skipCalls 1 st)"
  by (cases "faults st") (simp_all add: db_call_def willFail_def skipCalls_def)

lemma willFail_skipCalls [simp]: "willFail k (skipCalls n st) = willFail (k + n) st"
  by (auto simp: willFail_def skipCalls_def add.commute)

lemma skipCalls_skipCalls [simp]: "skipCalls m (skipCalls n st) = skipCalls (m + n) st"
  by (simp add: skipCalls_def add.commute)

lemma skipCalls_fields [simp]:
  "loans (skipCalls n st) = loans st" "transactions (skipCalls n st) = transactions st"
  "uuids (skipCalls n st) = uuids st" "faults (skipCalls n st) = drop n (faults st)"
  by (simp_all add: skipCalls_def)

lemma skipCalls_update [simp]:
  "skipCalls n (st\<lparr>loans := ls\<rparr>) = (skipCalls n st)\<lparr>loans := ls\<rparr>"
  "skipCalls n (st\<lparr>transactions := ts\<rparr>) = (skipCalls n st)\<lparr>transactions := ts\<rparr>"
  "skipCalls n (st\<lparr>uuids := u\<rparr>) = (skipCalls n st)\<lparr>uuids := u\<rparr>"
  by (simp_all add: skipCalls_def)

lemma willFail_update [simp]:
  "willFail k (st\<lparr>loans := ls\<rparr>) = willFail k st"
  "willFail k (st\<lparr>transactions := ts\<rparr>) = willFail k st"
  "willFail k (st\<lparr>uuids := u\<rparr>) = willFail k st"
  by (simp_all add: willFail_def)

lemma wf_skipCalls [simp]: "wf (skipCalls n st) = wf st"
  by (simp add: wf_def)

lemma store_GetLoan_flag:
  "store_GetLoan i st =
     (if willFail 0 st then (Inl (Wrapped ''failed to get loan'' DriverError), skipCalls 1 st)
      else case selectLoan i (loans st) of
             None \<Rightarrow> (Inl LoanNotFound, skipCalls 1 st)
           | Some l \<Rightarrow> (Inr l, skipCalls 1 st))"
  by (simp add: store_GetLoan_def db_call_willFail split: option.splits)

lemma store_UpdateLoan_flag:
  "store_UpdateLoan loan st =
     (if willFail 0 st then (Some (Wrapped ''failed to update loan'' DriverError), skipCalls 1 st)
      else if ID loan \<notin> set (map ID (loans st)) then (Some LoanNotFound, skipCalls 1 st)
      else (None, (skipCalls 1 st)\<lparr>loans :=
              map (\<lambda>l. if ID l = ID loan then loan\<lparr>CreatedAt := CreatedAt l\<rparr> else l) (loans st)\<rparr>))"
  by (simp add: store_UpdateLoan_def db_call_willFail)

lemma store_CreateTransaction_flag:
  "store_CreateTransaction tx st =
     (if willFail 0 st \<or> TxID tx \<in> set (map TxID (transactions st))
         \<or> LoanID tx \<notin> set (map ID (loans st))
      then (Some (Wrapped ''failed to create transaction'' DriverError), skipCalls 1 st)
      else (None, (skipCalls 1 st)\<lparr>transactions := transactions st @ [tx]\<rparr>))"
  by (simp add: store_CreateTransaction_def db_call_willFail)

lemma store_CreateLoan_flag:
  "store_CreateLoan loan st =
     (if willFail 0 st \<or> ID loan \<in> set (map ID (loans st))
      then (Some (Wrapped ''failed to create loan'' DriverError), skipCalls 1 st)
      else (None, (skipCalls 1 st)\<lparr>loans := loans st @ [loan]\<rparr>))"
  by (simp add: store_CreateLoan_def db_call_willFail)

lemma store_GetAllActiveLoans_flag:
  "store_GetAllActiveLoans st =
     (if willFail 0 st
      then (Inl (Wrapped ''failed to get all active loans'' DriverError), skipCalls 1 st)
      else (Inr (filter (\<lambda>l. Status l = ''active'') (loans st)), skipCalls 1 st))"
  by (simp add: store_GetAllActiveLoans_def db_call_willFail)

lemma update_row_of_store:
  assumes "distinct (map ID (loans st))" and "selectLoan i (loans st) = Some l"
    and "ID r = i" and "CreatedAt r = CreatedAt l"
  shows "map (\<lambda>x. if ID x = ID r then r\<lparr>CreatedAt := CreatedAt x\<rparr> else x) (loans st)
           = map (\<lambda>x. if x = l then r else x) (loans st)"
proof -
  have l: "l \<in> set (loans st)" "ID l = i" using selectLoan_Some_D [OF assms(2)] by simp_all
  have "map (\<lambda>x. if ID x = ID l then r\<lparr>CreatedAt := CreatedAt x\<rparr> else x) (loans st)
          = map (\<lambda>x. if x = l then r\<lparr>CreatedAt := CreatedAt l\<rparr> else x) (loans st)"
    by (rule update_row_distinct [OF assms(1) l(1)])
  moreover have "r\<lparr>CreatedAt := CreatedAt l\<rparr> = r" using assms(4) by simp
  moreover have "ID r = ID l" using assms(3) l(2) by simp
  ultimately show ?thesis by (simp only:)
qed

lemma RecordPayment_outcomes:
  assumes "wf st" and "selectLoan i (loans st) = Some l" and "Status l = ''active''"
  shows "RecordPayment now i amount st =
    (let tx = \<lparr>TxID = uuids st, LoanID = i, Amount = amount,
                 Type = TransactionTypePayment, Timestamp = now\<rparr>;
         paid = map (\<lambda>x. if x = l then applyPayment now amount l else x) (loans st)
     in if willFail 0 st
        then (Inl (Wrapped ''failed to get loan'' DriverError), skipCalls 1 st)
        else if willFail 1 st
        then (Inl (Wrapped ''failed to update loan balance''
                     (Wrapped ''failed to update loan'' DriverError)), skipCalls 2 st)
        else if willFail 2 st
        then (Inl (Wrapped ''failed to store payment transaction''
                     (Wrapped ''failed to create transaction'' DriverError)),
              (skipCalls 3 st)\<lparr>loans := paid, uuids := Suc (uuids st)\<rparr>)
        else (Inr tx, (skipCalls 3 st)\<lparr>loans := paid, transactions := transactions st @ [tx],
                                        uuids := Suc (uuids st)\<rparr>))"
proof -
  have l: "l \<in> set (loans st)" "ID l = i" using selectLoan_Some_D [OF assms(2)] by simp_all
  define loan2 where "loan2 = applyPayment now amount l"
  define paid where "paid = map (\<lambda>x. if x = l then loan2 else x) (loans st)"
  define tx where "tx = \<lparr>TxID = uuids st, LoanID = i, Amount = amount,
                           Type = TransactionTypePayment, Timestamp = now\<rparr>"
  define st3 where "st3 = (skipCalls (Suc (Suc 0)) st)\<lparr>loans := paid, uuids := Suc (uuids st)\<rparr>"
  have id2: "ID loan2 = i" by (simp add: loan2_def l)
  have "map (\<lambda>x. if ID x = ID loan2 then loan2\<lparr>CreatedAt := CreatedAt x\<rparr> else x) (loans st) = paid"
    unfolding paid_def
    by (rule update_row_of_store [OF wf_distinct [OF assms(1)] assms(2)])
       (simp_all add: loan2_def l)
  then have m: "map (\<lambda>x. if ID x = i then loan2\<lparr>CreatedAt := CreatedAt x\<rparr> else x) (loans st) = paid"
    by (simp only: id2)
  have i_in: "i \<in> ID ` set (loans st)" using l by auto
  have get: "store_GetLoan i st =
               (if willFail 0 st then (Inl (Wrapped ''failed to get loan'' DriverError), skipCalls (Suc 0) st)
                else (Inr l, skipCalls (Suc 0) st))"
    by (simp add: store_GetLoan_flag assms(2))
  have upd: "store_UpdateLoan loan2 (skipCalls (Suc 0) st) =
               (if willFail (Suc 0) st
                then (Some (Wrapped ''failed to update loan'' DriverError), skipCalls (Suc (Suc 0)) st)
                else (None, (skipCalls (Suc (Suc 0)) st)\<lparr>loans := paid\<rparr>))"
    using i_in by (simp add: store_UpdateLoan_flag m id2)
  have new: "uuid_New ((skipCalls (Suc (Suc 0)) st)\<lparr>loans := paid\<rparr>) = (uuids st, st3)"
    by (simp add: uuid_New_def st3_def)
  have f1: "LoanID tx \<in> set (map ID (loans st3))"
    using l map_ID_replace [of loan2 l "loans st"] id2
    by (simp add: tx_def st3_def paid_def) force
  have f2: "TxID tx \<notin> set (map TxID (transactions st3))"
    using wf_fresh_tx [OF assms(1)] by (simp add: tx_def st3_def)
  have ins: "store_CreateTransaction tx st3 =
               (if willFail (Suc (Suc 0)) st
                then (Some (Wrapped ''failed to create transaction'' DriverError), skipCalls (Suc 0) st3)
                else (None, (skipCalls (Suc 0) st3)\<lparr>transactions := transactions st @ [tx]\<rparr>))"
    unfolding store_CreateTransaction_flag using f1 f2
    by (simp only: if_False simp_thms) (simp add: st3_def)
  have sk: "skipCalls (Suc 0) st3 = (skipCalls (Suc (Suc (Suc 0))) st)\<lparr>loans := paid, uuids := Suc (uuids st)\<rparr>"
    by (simp add: st3_def)
  have "RecordPayment now i amount st =
     (if willFail 0 st
        then (Inl (Wrapped ''failed to get loan'' DriverError), skipCalls (Suc 0) st)
        else if willFail (Suc 0) st
        then (Inl (Wrapped ''failed to update loan balance''
                     (Wrapped ''failed to update loan'' DriverError)), skipCalls (Suc (Suc 0)) st)
        else if willFail (Suc (Suc 0)) st
        then (Inl (Wrapped ''failed to store payment transaction''
                     (Wrapped ''failed to create transaction'' DriverError)), skipCalls (Suc 0) st3)
        else (Inr tx, (skipCalls (Suc 0) st3)\<lparr>transactions := transactions st @ [tx]\<rparr>))"
    unfolding RecordPayment_def get using assms(3)
    by (simp add: Let_def loan2_def [symmetric] upd new id2 ins [unfolded tx_def])
       (simp add: tx_def)
  then show ?thesis
    unfolding sk by (simp add: Let_def tx_def paid_def loan2_def numeral_2_eq_2 numeral_3_eq_3)
qed


lemma CreateLoan_outcomes:
  assumes "wf st"
  shows "CreateLoan now v customerKey principal' baseRate variance st =
    (let loan = \<lparr>ID = uuids st, CustomerKey = customerKey, Principal = principal',
                 Balance = principal', BaseInterestRate = baseRate,
                 InterestRateVariance = variance, InterestRate = baseRate + variance,
                 Status = ''active'', CreatedAt = now, UpdatedAt = now,
                 LastInterestCalculationDate = None,
                 StatementCycleDay = assignStatementCycleDay v, AccruedInterest = 0\<rparr>;
         tx = \<lparr>TxID = Suc (uuids st), LoanID = uuids st, Amount = principal',
               Type = TransactionTypeDisbursement, Timestamp = now\<rparr>
     in if willFail 0 st
        then (Inl (Wrapped ''failed to store loan''
                     (Wrapped ''failed to create loan'' DriverError)),
              (skipCalls 1 st)\<lparr>uuids := Suc (uuids st)\<rparr>)
        else if willFail 1 st
        then (Inl (Wrapped ''failed to store disbursement transaction''
                     (Wrapped ''failed to create transaction'' DriverError)),
              (skipCalls 2 st)\<lparr>loans := loans st @ [loan], uuids := Suc (Suc (uuids st))\<rparr>)
        else (Inr loan,
              (skipCalls 2 st)\<lparr>loans := loans st @ [loan],
                                transactions := transactions st @ [tx],
                                uuids := Suc (Suc (uuids st))\<rparr>))"
  using wf_fresh_loan_later [OF assms, of "uuids st"]
    wf_fresh_tx_later [OF assms, of "Suc (uuids st)"]
  by (simp add: CreateLoan_def uuid_New_def store_CreateLoan_flag store_CreateTransaction_flag
        Let_def numeral_2_eq_2)

lemma ID_capitalizedRow [simp]: "ID (capitalizedRow now l) = ID l"
  by (simp add: capitalizedRow_def)

lemma capitalizeLoan_not_due:
  "\<not> capitalizationDue todayDay x \<Longrightarrow> capitalizeLoan now todayDay st x = st"
  by (auto simp: capitalizeLoan_def capitalizationDue_def)

lemma capitalizeLoan_outcomes:
  assumes "wf st" and "selectLoan i (loans st) = Some x" and "capitalizationDue todayDay x"
  shows "capitalizeLoan now todayDay st x =
    (if willFail 0 st then (skipCalls 1 st)\<lparr>uuids := Suc (uuids st)\<rparr>
     else if willFail 1 st
     then (skipCalls 2 st)\<lparr>transactions := transactions st @ [interestTx now (uuids st) x],
                           uuids := Suc (uuids st)\<rparr>
     else (skipCalls 2 st)\<lparr>loans := map (\<lambda>l. if l = x then capitalizedRow now x else l) (loans st),
                           transactions := transactions st @ [interestTx now (uuids st) x],
                           uuids := Suc (uuids st)\<rparr>)"
proof -
  have x: "x \<in> set (loans st)" "ID x = i" using selectLoan_Some_D [OF assms(2)] by simp_all
  define row where "row = capitalizedRow now x"
  define tx where "tx = interestTx now (uuids st) x"
  define st1 where "st1 = st\<lparr>uuids := Suc (uuids st)\<rparr>"
  define st2 where "st2 = (skipCalls (Suc 0) st1)\<lparr>transactions := transactions st @ [tx]\<rparr>"
  have src_row: "x\<lparr>Balance := Balance x + AccruedInterest x, UpdatedAt := now, AccruedInterest := 0\<rparr> = row"
    by (simp add: row_def capitalizedRow_def)
  have src_tx: "\<lparr>TxID = uuids st, LoanID = ID x, Amount = AccruedInterest x,
                 Type = TransactionTypeInterest, Timestamp = now\<rparr> = tx"
    by (simp add: tx_def interestTx_def)
  have i_in: "ID x \<in> ID ` set (loans st)" using x by auto
  have fresh: "uuids st \<notin> TxID ` set (transactions st)"
    using wf_fresh_tx [OF assms(1)] by simp
  have ins: "store_CreateTransaction tx st1 =
               (if willFail 0 st
                then (Some (Wrapped ''failed to create transaction'' DriverError), skipCalls (Suc 0) st1)
                else (None, st2))"
    using i_in fresh by (simp add: store_CreateTransaction_flag st1_def st2_def tx_def interestTx_def)
  have "map (\<lambda>l. if ID l = ID row then row\<lparr>CreatedAt := CreatedAt l\<rparr> else l) (loans st)
          = map (\<lambda>l. if l = x then row else l) (loans st)"
    by (rule update_row_of_store [OF wf_distinct [OF assms(1)] assms(2)])
       (simp_all add: row_def capitalizedRow_def x)
  then have m: "map (\<lambda>l. if ID l = ID x then row\<lparr>CreatedAt := CreatedAt l\<rparr> else l) (loans st)
          = map (\<lambda>l. if l = x then row else l) (loans st)"
    by (simp add: row_def)
  have idr: "ID row = ID x" by (simp add: row_def)
  have upd: "store_UpdateLoan row st2 =
               (if willFail (Suc 0) st
                then (Some (Wrapped ''failed to update loan'' DriverError), skipCalls (Suc 0) st2)
                else (None, (skipCalls (Suc 0) st2)\<lparr>loans := map (\<lambda>l. if l = x then row else l) (loans st)\<rparr>))"
    using i_in by (simp add: store_UpdateLoan_flag st2_def st1_def idr m)
  have "capitalizeLoan now todayDay st x =
          (if willFail 0 st then skipCalls (Suc 0) st1
           else if willFail (Suc 0) st then skipCalls (Suc 0) st2
           else (skipCalls (Suc 0) st2)\<lparr>loans := map (\<lambda>l. if l = x then row else l) (loans st)\<rparr>)"
    using assms(3)
    by (simp add: capitalizeLoan_def capitalizationDue_def uuid_New_def st1_def [symmetric]
          Let_def src_tx src_row ins upd)
  then show ?thesis
    by (simp add: st1_def st2_def tx_def row_def numeral_2_eq_2)
qed

section \<open>Creation and payment (claims C2, C6, C7 and C9)\<close>

lemma wf_emptyState: "wf emptyState"
  by (simp add: wf_def emptyState_def)

lemma wf_stateB: "wf stateB"
  by (simp add: wf_def stateB_def loanB_def loanA_def disbursementA_def paymentB_def)

lemma wf_faults [simp]: "wf (st\<lparr>faults := fs\<rparr>) = wf st"
  by (simp add: wf_def)

lemma willFail_nofault: "faults st = [] \<Longrightarrow> willFail k st = False"
  by (simp add: willFail_def)

lemma skipCalls_nofault: "faults st = [] \<Longrightarrow> skipCalls n st = st"
  by (simp add: skipCalls_def)

text \<open>
  Claim C2. For an active loan and any amount (in particular every strictly positive
  one), with no store call failing, RecordPayment returns one payment Transaction that
  carries the requested, unclamped amount and appends exactly that Transaction; the
  stored loan has the amount subtracted from its balance, or balance 0 and status closed
  when the difference is zero or less; no other loan changes, and every later payment on
  the loan so closed fails with "loan is not active".
\<close>

theorem RecordPayment_applies:
  assumes "wf st" and "faults st = []"
    and "selectLoan i (loans st) = Some l" and "Status l = ''active''"
  shows "fst (RecordPayment now i amount st) =
             Inr \<lparr>TxID = uuids st, LoanID = i, Amount = amount,
                   Type = TransactionTypePayment, Timestamp = now\<rparr>
         \<and> transactions (snd (RecordPayment now i amount st)) =
             transactions st @ [\<lparr>TxID = uuids st, LoanID = i, Amount = amount,
                                   Type = TransactionTypePayment, Timestamp = now\<rparr>]
         \<and> selectLoan i (loans (snd (RecordPayment now i amount st))) =
             Some (if Balance l - amount \<le> 0
                   then l\<lparr>Balance := 0, Status := ''closed'', UpdatedAt := now\<rparr>
                   else l\<lparr>Balance := Balance l - amount, UpdatedAt := now\<rparr>)
         \<and> (\<forall>j. j \<noteq> i \<longrightarrow>
               selectLoan j (loans (snd (RecordPayment now i amount st))) = selectLoan j (loans st))
         \<and> (Balance l - amount \<le> 0 \<longrightarrow>
              (\<forall>now2 amount2.
                 fst (RecordPayment now2 i amount2 (snd (RecordPayment now i amount st)))
                   = Inl LoanNotActive))"
proof -
  define tx where "tx = \<lparr>TxID = uuids st, LoanID = i, Amount = amount,
                           Type = TransactionTypePayment, Timestamp = now\<rparr>"
  define st' where "st' = st\<lparr>loans := map (\<lambda>x. if x = l then applyPayment now amount l else x) (loans st),
                               transactions := transactions st @ [tx],
                               uuids := Suc (uuids st)\<rparr>"
  have l: "ID l = i" using selectLoan_Some_D [OF assms(3)] by simp
  have run: "RecordPayment now i amount st = (Inr tx, st')"
    using RecordPayment_ok [OF assms, of now amount] by (simp add: Let_def tx_def st'_def)
  have sel: "selectLoan j (loans st') = (if j = i then Some (applyPayment now amount l)
                                         else selectLoan j (loans st))" for j
    using selectLoan_replace [OF wf_distinct [OF assms(1)] assms(3), of "applyPayment now amount l" j]
    by (simp add: st'_def l)
  have row: "applyPayment now amount l =
               (if Balance l - amount \<le> 0
                then l\<lparr>Balance := 0, Status := ''closed'', UpdatedAt := now\<rparr>
                else l\<lparr>Balance := Balance l - amount, UpdatedAt := now\<rparr>)"
    by (simp add: applyPayment_def Let_def)
  have again: "fst (RecordPayment now2 i amount2 st') = Inl LoanNotActive"
    if "Balance l - amount \<le> 0" for now2 amount2
  proof -
    have "faults st' = []" using assms(2) by (simp add: st'_def)
    moreover have "selectLoan i (loans st') = Some (applyPayment now amount l)"
      by (simp add: sel)
    moreover have "Status (applyPayment now amount l) \<noteq> ''active''"
      using that by (simp add: row)
    ultimately show ?thesis by (simp add: RecordPayment_closed)
  qed
  show ?thesis
    unfolding run using sel again by (simp add: tx_def [symmetric] row) (simp add: st'_def)
qed

text \<open>
  Witness for C2: balance 600.00, payment of 600.00; the loan is closed at balance 0 and
  a second payment fails.
\<close>

theorem RecordPayment_applies_witness:
  "wf stateB \<and> faults stateB = [] \<and> selectLoan 0 (loans stateB) = Some loanB
   \<and> Status loanB = ''active''
   \<and> fst (RecordPayment 10 0 600 stateB) =
       Inr \<lparr>TxID = 3, LoanID = 0, Amount = 600, Type = TransactionTypePayment, Timestamp = 10\<rparr>
   \<and> transactions (snd (RecordPayment 10 0 600 stateB)) =
       [disbursementA, paymentB,
        \<lparr>TxID = 3, LoanID = 0, Amount = 600, Type = TransactionTypePayment, Timestamp = 10\<rparr>]
   \<and> selectLoan 0 (loans (snd (RecordPayment 10 0 600 stateB))) =
       Some (loanB\<lparr>Balance := 0, Status := ''closed'', UpdatedAt := 10\<rparr>)
   \<and> fst (RecordPayment 11 0 1 (snd (RecordPayment 10 0 600 stateB))) = Inl LoanNotActive"
proof -
  have s: "selectLoan 0 (loans stateB) = Some loanB"
    by (simp add: selectLoan_def stateB_def loanB_def loanA_def)
  have a: "Status loanB = ''active''" by (simp add: loanB_def loanA_def)
  have f: "faults stateB = []" by (simp add: stateB_def)
  have b: "Balance loanB - 600 \<le> 0" by (simp add: loanB_def)
  show ?thesis
    using RecordPayment_applies [OF wf_stateB f s a, of 10 600] b
    by (simp add: wf_stateB s a f) (simp add: stateB_def)
qed

text \<open>
  Claim C9. In a well-formed state with no store call failing CreateLoan returns a loan;
  and whenever it returns a loan, that loan is active, has balance equal to the
  principal, no accrued interest, the effective rate \<open>baseRate + variance\<close> and a
  statement cycle day between 1 and 28, it has been appended to the loans, and exactly
  one Transaction has been appended: its disbursement, for the principal.
\<close>

theorem CreateLoan_produces:
  "(wf st \<and> faults st = [] \<longrightarrow> (\<exists>loan. fst (CreateLoan now v customerKey principal' baseRate variance st) = Inr loan))
   \<and> (\<forall>loan. fst (CreateLoan now v customerKey principal' baseRate variance st) = Inr loan \<longrightarrow>
         loan = \<lparr>ID = uuids st, CustomerKey = customerKey, Principal = principal',
                 Balance = principal', BaseInterestRate = baseRate,
                 InterestRateVariance = variance, InterestRate = baseRate + variance,
                 Status = ''active'', CreatedAt = now, UpdatedAt = now,
                 LastInterestCalculationDate = None,
                 StatementCycleDay = assignStatementCycleDay v, AccruedInterest = 0\<rparr>
         \<and> 1 \<le> StatementCycleDay loan \<and> StatementCycleDay loan \<le> 28
         \<and> loans (snd (CreateLoan now v customerKey principal' baseRate variance st))
             = loans st @ [loan]
         \<and> transactions (snd (CreateLoan now v customerKey principal' baseRate variance st))
             = transactions st @ [\<lparr>TxID = Suc (uuids st), LoanID = ID loan, Amount = principal',
                                    Type = TransactionTypeDisbursement, Timestamp = now\<rparr>])"
proof (intro conjI impI allI)
  assume "wf st \<and> faults st = []"
  then show "\<exists>loan. fst (CreateLoan now v customerKey principal' baseRate variance st) = Inr loan"
    by (simp add: CreateLoan_ok Let_def)
next
  fix loan
  assume ok: "fst (CreateLoan now v customerKey principal' baseRate variance st) = Inr loan"
  then show "loan = \<lparr>ID = uuids st, CustomerKey = customerKey, Principal = principal',
                 Balance = principal', BaseInterestRate = baseRate,
                 InterestRateVariance = variance, InterestRate = baseRate + variance,
                 Status = ''active'', CreatedAt = now, UpdatedAt = now,
                 LastInterestCalculationDate = None,
                 StatementCycleDay = assignStatementCycleDay v, AccruedInterest = 0\<rparr>"
    by (auto simp: CreateLoan_def uuid_New_def store_CreateLoan_def store_CreateTransaction_def
          db_call_def Let_def split: list.splits if_splits)
  then show "1 \<le> StatementCycleDay loan" "StatementCycleDay loan \<le> 28"
    using assignStatementCycleDay_range [of v] by simp_all
  from ok show "loans (snd (CreateLoan now v customerKey principal' baseRate variance st))
             = loans st @ [loan]"
    by (auto simp: CreateLoan_def uuid_New_def store_CreateLoan_def store_CreateTransaction_def
          db_call_def Let_def split: list.splits if_splits)
  from ok show "transactions (snd (CreateLoan now v customerKey principal' baseRate variance st))
             = transactions st @ [\<lparr>TxID = Suc (uuids st), LoanID = ID loan, Amount = principal',
                                    Type = TransactionTypeDisbursement, Timestamp = now\<rparr>]"
    by (auto simp: CreateLoan_def uuid_New_def store_CreateLoan_def store_CreateTransaction_def
          db_call_def Let_def split: list.splits if_splits)
qed

text \<open>
  Witness for C9: principal 1000.00, base rate 0.12, variance -0.02 give the effective
  rate 0.10 and one disbursement of 1000.00.
\<close>

theorem CreateLoan_produces_witness:
  "wf emptyState \<and> faults emptyState = []
   \<and> fst (CreateLoan 5 30 ''cust123'' 1000 (12 / 100) (- (2 / 100)) emptyState) =
       Inr \<lparr>ID = 0, CustomerKey = ''cust123'', Principal = 1000, Balance = 1000,
             BaseInterestRate = 12 / 100, InterestRateVariance = - (2 / 100),
             InterestRate = 1 / 10, Status = ''active'', CreatedAt = 5, UpdatedAt = 5,
             LastInterestCalculationDate = None, StatementCycleDay = 3,
             AccruedInterest = 0\<rparr>
   \<and> transactions (snd (CreateLoan 5 30 ''cust123'' 1000 (12 / 100) (- (2 / 100)) emptyState)) =
       [\<lparr>TxID = 1, LoanID = 0, Amount = 1000, Type = TransactionTypeDisbursement,
         Timestamp = 5\<rparr>]"
proof -
  have f: "faults emptyState = []" by (simp add: emptyState_def)
  have day: "assignStatementCycleDay 30 = 3"
    by (simp add: assignStatementCycleDay_def Intn_def minStatementDay_def maxStatementDay_def)
  from CreateLoan_produces [of emptyState 5 30 "''cust123''" 1000 "12 / 100" "- (2 / 100)"]
  show ?thesis
    using wf_emptyState f by (auto simp: day) (simp_all add: emptyState_def)
qed

text \<open>
  Counterexample to C6 as stated: the engine's RecordPayment accepts the amount -50.00
  (it returns the payment Transaction and the balance goes from 1000.00 to 1050.00), and
  CreateLoan accepts the principal -5.00 (the loan and its disbursement are stored).
\<close>

theorem engine_accepts_nonpositive_counterexample:
  "fst (RecordPayment 10 0 (- 50) stateA) =
     Inr \<lparr>TxID = 2, LoanID = 0, Amount = - 50, Type = TransactionTypePayment, Timestamp = 10\<rparr>
   \<and> map Balance (loans (snd (RecordPayment 10 0 (- 50) stateA))) = [1050]
   \<and> map Balance (loans (snd (CreateLoan 5 30 ''cust123'' (- 5) (1 / 10) 0 emptyState))) = [- 5]
   \<and> map Amount (transactions (snd (CreateLoan 5 30 ''cust123'' (- 5) (1 / 10) 0 emptyState)))
       = [- 5]"
proof -
  have s: "selectLoan 0 (loans stateA) = Some loanA"
    by (simp add: selectLoan_def stateA_def loanA_def)
  have a: "Status loanA = ''active''" by (simp add: loanA_def)
  have f: "faults stateA = []" by (simp add: stateA_def)
  have wfA: "wf stateA" by (simp add: wf_def stateA_def loanA_def disbursementA_def)
  have f0: "faults emptyState = []" by (simp add: emptyState_def)
  show ?thesis
    using RecordPayment_ok [OF wfA f s a, of 10 "- 50"]
      CreateLoan_ok [OF wf_emptyState f0, of 5 30 "''cust123''" "- 5" "1 / 10" 0]
    by (simp add: Let_def stateA_def emptyState_def applyPayment_def loanA_def)
qed

text \<open>
  Claim C6, as amended. A payment amount that is zero or negative is rejected by the API
  handler recordPaymentHandler, with status 400, before the engine is called: no loan and
  no Transaction is created or modified.
\<close>

theorem nonpositive_payment_rejected_by_handler:
  "amount \<le> 0 \<Longrightarrow> recordPaymentHandler now idParsed (Some amount) st = (400, st)"
  by (simp add: recordPaymentHandler_def split: option.splits)

text \<open>
  Witness for C6: a payment of -50.00 sent to the handler.
\<close>

theorem nonpositive_payment_rejected_by_handler_witness:
  "(- 50 :: rat) \<le> 0 \<and> recordPaymentHandler 10 (Some 0) (Some (- 50)) stateA = (400, stateA)"
  using nonpositive_payment_rejected_by_handler [of "- 50" 10 "Some 0" stateA] by simp

text \<open>
  Counterexample to C7 as stated: the append of the Transaction fails after the loan was
  written. RecordPayment returns an error, yet the stored balance is 600.00 instead of
  1000.00 and no payment Transaction exists; CreateLoan returns an error, yet the loan is
  stored without a disbursement.
\<close>

theorem partial_state_counterexample:
  "fst (RecordPayment 10 0 400 (stateA\<lparr>faults := [False, False, True]\<rparr>)) =
     Inl (Wrapped ''failed to store payment transaction''
            (Wrapped ''failed to create transaction'' DriverError))
   \<and> map Balance (loans (snd (RecordPayment 10 0 400 (stateA\<lparr>faults := [False, False, True]\<rparr>))))
       = [600]
   \<and> transactions (snd (RecordPayment 10 0 400 (stateA\<lparr>faults := [False, False, True]\<rparr>)))
       = [disbursementA]
   \<and> fst (CreateLoan 5 30 ''cust123'' 1000 (1 / 10) 0 (emptyState\<lparr>faults := [False, True]\<rparr>)) =
       Inl (Wrapped ''failed to store disbursement transaction''
              (Wrapped ''failed to create transaction'' DriverError))
   \<and> map Balance (loans (snd (CreateLoan 5 30 ''cust123'' 1000 (1 / 10) 0
                                 (emptyState\<lparr>faults := [False, True]\<rparr>)))) = [1000]
   \<and> transactions (snd (CreateLoan 5 30 ''cust123'' 1000 (1 / 10) 0
                            (emptyState\<lparr>faults := [False, True]\<rparr>))) = []"
proof -
  have s: "selectLoan 0 (loans (stateA\<lparr>faults := [False, False, True]\<rparr>)) = Some loanA"
    by (simp add: selectLoan_def stateA_def loanA_def)
  have a: "Status loanA = ''active''" by (simp add: loanA_def)
  have wfA: "wf (stateA\<lparr>faults := [False, False, True]\<rparr>)"
    by (simp add: wf_def stateA_def loanA_def disbursementA_def)
  have wf0: "wf (emptyState\<lparr>faults := [False, True]\<rparr>)"
    by (simp add: wf_emptyState)
  show ?thesis
    using RecordPayment_outcomes [OF wfA s a, of 10 400]
      CreateLoan_outcomes [OF wf0, of 5 30 "''cust123''" 1000 "1 / 10" 0]
    by (simp add: Let_def willFail_def skipCalls_def stateA_def emptyState_def applyPayment_def
          loanA_def numeral_2_eq_2)
qed

text \<open>
  Claim C7, as amended. CreateLoan makes two store calls (insert the loan, append the
  disbursement) and RecordPayment on an active loan three (read the loan, update it,
  append the payment), each taking effect on its own. When an earlier call fails the
  error is returned and nothing has been written; when all succeed both effects are
  there; when the Transaction append fails after the loan was written, the error is
  returned and the loan write stays.
\<close>

theorem writes_are_separate:
  assumes "wf st"
  shows "CreateLoan now v customerKey principal' baseRate variance st =
    (let loan = \<lparr>ID = uuids st, CustomerKey = customerKey, Principal = principal',
                 Balance = principal', BaseInterestRate = baseRate,
                 InterestRateVariance = variance, InterestRate = baseRate + variance,
                 Status = ''active'', CreatedAt = now, UpdatedAt = now,
                 LastInterestCalculationDate = None,
                 StatementCycleDay = assignStatementCycleDay v, AccruedInterest = 0\<rparr>;
         tx = \<lparr>TxID = Suc (uuids st), LoanID = uuids st, Amount = principal',
               Type = TransactionTypeDisbursement, Timestamp = now\<rparr>
     in if willFail 0 st
        then (Inl (Wrapped ''failed to store loan''
                     (Wrapped ''failed to create loan'' DriverError)),
              (skipCalls 1 st)\<lparr>uuids := Suc (uuids st)\<rparr>)
        else if willFail 1 st
        then (Inl (Wrapped ''failed to store disbursement transaction''
                     (Wrapped ''failed to create transaction'' DriverError)),
              (skipCalls 2 st)\<lparr>loans := loans st @ [loan], uuids := Suc (Suc (uuids st))\<rparr>)
        else (Inr loan,
              (skipCalls 2 st)\<lparr>loans := loans st @ [loan],
                                transactions := transactions st @ [tx],
                                uuids := Suc (Suc (uuids st))\<rparr>))
   \<and> (selectLoan i (loans st) = Some l \<and> Status l = ''active'' \<longrightarrow>
      RecordPayment now i amount st =
        (let tx = \<lparr>TxID = uuids st, LoanID = i, Amount = amount,
                   Type = TransactionTypePayment, Timestamp = now\<rparr>;
             paid = map (\<lambda>x. if x = l then applyPayment now amount l else x) (loans st)
         in if willFail 0 st
            then (Inl (Wrapped ''failed to get loan'' DriverError), skipCalls 1 st)
            else if willFail 1 st
            then (Inl (Wrapped ''failed to update loan balance''
                         (Wrapped ''failed to update loan'' DriverError)), skipCalls 2 st)
            else if willFail 2 st
            then (Inl (Wrapped ''failed to store payment transaction''
                         (Wrapped ''failed to create transaction'' DriverError)),
                  (skipCalls 3 st)\<lparr>loans := paid, uuids := Suc (uuids st)\<rparr>)
            else (Inr tx, (skipCalls 3 st)\<lparr>loans := paid,
                                             transactions := transactions st @ [tx],
                                             uuids := Suc (uuids st)\<rparr>)))"
  using CreateLoan_outcomes [OF assms] RecordPayment_outcomes [OF assms]
  by (simp only: simp_thms) blast

text \<open>
  Witness for C7: the payment that pays the loan off, with the third store call
  failing: the loan is stored closed at balance 0 and there is no payment Transaction.
\<close>

theorem writes_are_separate_witness:
  "wf (stateB\<lparr>faults := [False, False, True]\<rparr>)
   \<and> selectLoan 0 (loans (stateB\<lparr>faults := [False, False, True]\<rparr>)) = Some loanB
   \<and> Status loanB = ''active''
   \<and> RecordPayment 10 0 600 (stateB\<lparr>faults := [False, False, True]\<rparr>) =
       (Inl (Wrapped ''failed to store payment transaction''
               (Wrapped ''failed to create transaction'' DriverError)),
        stateB\<lparr>loans := [loanB\<lparr>Balance := 0, Status := ''closed'', UpdatedAt := 10\<rparr>],
               uuids := 4\<rparr>)"
proof -
  have s: "selectLoan 0 (loans (stateB\<lparr>faults := [False, False, True]\<rparr>)) = Some loanB"
    by (simp add: selectLoan_def stateB_def loanB_def loanA_def)
  have a: "Status loanB = ''active''" by (simp add: loanB_def loanA_def)
  have w: "wf (stateB\<lparr>faults := [False, False, True]\<rparr>)" by (simp add: wf_stateB)
  show ?thesis
    using writes_are_separate [OF w, of 10 30 "''c''" 1 1 0 0 loanB 600] s a
    by (simp add: w Let_def willFail_def skipCalls_def numeral_2_eq_2)
       (simp add: stateB_def applyPayment_def loanB_def wf_def loanA_def disbursementA_def
          paymentB_def)
qed

section \<open>Monthly capitalization without store failures\<close>

lemma wf_map_loans:
  assumes "wf st" and "\<And>l. ID (f l) = ID l"
  shows "wf (st\<lparr>loans := map f (loans st)\<rparr>)"
proof -
  have "map ID (map f (loans st)) = map ID (loans st)"
    by (simp add: assms(2))
  then show ?thesis
    using assms by (simp add: wf_def list_all_iff del: map_map)
qed

lemma wf_append_tx:
  assumes "wf st" and "TxID t = uuids st"
  shows "wf (st\<lparr>transactions := transactions st @ [t], uuids := Suc (uuids st)\<rparr>)"
  using assms by (auto simp: wf_def list_all_iff less_Suc_eq)

lemma wf_append_loan:
  assumes "wf st" and "ID l = uuids st"
  shows "wf (st\<lparr>loans := loans st @ [l], uuids := Suc (uuids st)\<rparr>)"
  using assms by (auto simp: wf_def list_all_iff less_Suc_eq)

lemma capitalizeLoan_nofault:
  assumes "faults st = []" and "wf st" and "x \<in> set (loans st)"
  shows "capitalizeLoan now todayDay st x =
           (if capitalizationDue todayDay x
            then st\<lparr>loans := map (\<lambda>l. if l = x then capitalizedRow now x else l) (loans st),
                    transactions := transactions st @ [interestTx now (uuids st) x],
                    uuids := Suc (uuids st)\<rparr>
            else st)"
proof (cases "capitalizationDue todayDay x")
  case False
  then show ?thesis by (simp add: capitalizeLoan_not_due)
next
  case True
  have sel: "selectLoan (ID x) (loans st) = Some x"
    by (rule selectLoan_distinct [OF wf_distinct [OF assms(2)] assms(3)])
  show ?thesis
    using True assms(1)
    by (simp add: capitalizeLoan_outcomes [OF assms(2) sel True] willFail_nofault skipCalls_nofault)
qed

lemma foldl_capitalizeLoan_nofault:
  assumes "faults st = []" and "wf st" and "set xs \<subseteq> set (loans st)" and "distinct xs"
  shows "foldl (capitalizeLoan now todayDay) st xs =
           st\<lparr>loans := map (\<lambda>l. if l \<in> set xs \<and> capitalizationDue todayDay l
                                 then capitalizedRow now l else l) (loans st),
              transactions := transactions st
                 @ interestTxs now (uuids st) (filter (capitalizationDue todayDay) xs),
              uuids := uuids st + length (filter (capitalizationDue todayDay) xs)\<rparr>"
  using assms
proof (induction xs arbitrary: st)
  case Nil
  then show ?case by simp
next
  case (Cons x xs)
  have x_in: "x \<in> set (loans st)" and xs_in: "set xs \<subseteq> set (loans st)"
    and x_notin: "x \<notin> set xs" and dxs: "distinct xs"
    using Cons.prems by auto
  have d: "distinct (map ID (loans st))" by (rule wf_distinct [OF Cons.prems(2)])
  have other: "ID y \<noteq> ID x" if "y \<in> set xs" for y
    using same_ID_same_row [OF d x_in, of y] that xs_in x_notin by auto
  show ?case
  proof (cases "capitalizationDue todayDay x")
    case False
    then have step: "capitalizeLoan now todayDay st x = st"
      by (simp add: capitalizeLoan_not_due)
    have "map (\<lambda>l. if l \<in> set (x # xs) \<and> capitalizationDue todayDay l
                    then capitalizedRow now l else l) (loans st)
          = map (\<lambda>l. if l \<in> set xs \<and> capitalizationDue todayDay l
                    then capitalizedRow now l else l) (loans st)"
      using False by (intro map_cong) auto
    then show ?thesis
      using Cons.IH [OF Cons.prems(1,2) xs_in dxs] False step by simp
  next
    case True
    let ?h = "\<lambda>l. if l = x then capitalizedRow now x else l"
    let ?g = "\<lambda>l. if l \<in> set xs \<and> capitalizationDue todayDay l then capitalizedRow now l else l"
    define st1 where "st1 = st\<lparr>loans := map ?h (loans st),
                    transactions := transactions st @ [interestTx now (uuids st) x],
                    uuids := Suc (uuids st)\<rparr>"
    have step: "capitalizeLoan now todayDay st x = st1"
      using True by (simp add: capitalizeLoan_nofault [OF Cons.prems(1,2) x_in] st1_def)
    have wf1: "wf st1"
    proof -
      have "wf (st\<lparr>loans := map ?h (loans st)\<rparr>)"
        by (rule wf_map_loans [OF Cons.prems(2)]) simp
      from wf_append_tx [OF this, of "interestTx now (uuids st) x"]
      show ?thesis by (simp add: st1_def interestTx_def)
    qed
    have sub1: "set xs \<subseteq> set (loans st1)"
    proof
      fix y assume "y \<in> set xs"
      then have "y \<in> set (loans st)" "y \<noteq> x" using xs_in x_notin by auto
      then show "y \<in> set (loans st1)"
        by (auto simp: st1_def image_iff intro!: bexI [of _ y])
    qed
    have f1: "faults st1 = []" using Cons.prems(1) by (simp add: st1_def)
    have IH: "foldl (capitalizeLoan now todayDay) st1 xs =
           st1\<lparr>loans := map ?g (loans st1),
              transactions := transactions st1
                 @ interestTxs now (uuids st1) (filter (capitalizationDue todayDay) xs),
              uuids := uuids st1 + length (filter (capitalizationDue todayDay) xs)\<rparr>"
      by (rule Cons.IH [OF f1 wf1 sub1 dxs])
    have comp: "map ?g (map ?h (loans st)) =
                 map (\<lambda>l. if l \<in> set (x # xs) \<and> capitalizationDue todayDay l
                           then capitalizedRow now l else l) (loans st)"
    proof -
      have "capitalizedRow now x \<notin> set xs"
        using other [of "capitalizedRow now x"] by auto
      then show ?thesis using x_notin True by (auto simp: map_eq_conv)
    qed
    show ?thesis
      using True step IH comp by (simp add: st1_def)
  qed
qed

lemma ApplyMonthlyInterest_nofault:
  assumes "faults st = []" and "wf st"
  shows "ApplyMonthlyInterest now todayDay st =
           st\<lparr>loans := map (capitalizationStep now todayDay) (loans st),
              transactions := transactions st
                 @ interestTxs now (uuids st)
                     (filter (\<lambda>l. Status l = ''active'' \<and> capitalizationDue todayDay l) (loans st)),
              uuids := uuids st
                 + length (filter (\<lambda>l. Status l = ''active'' \<and> capitalizationDue todayDay l)
                             (loans st))\<rparr>"
proof -
  let ?xs = "filter (\<lambda>l. Status l = ''active'') (loans st)"
  have "ApplyMonthlyInterest now todayDay st = foldl (capitalizeLoan now todayDay) st ?xs"
    by (simp add: ApplyMonthlyInterest_def store_GetAllActiveLoans_ok [OF assms(1)])
  also have "\<dots> = st\<lparr>loans := map (\<lambda>l. if l \<in> set ?xs \<and> capitalizationDue todayDay l
                                 then capitalizedRow now l else l) (loans st),
              transactions := transactions st
                 @ interestTxs now (uuids st) (filter (capitalizationDue todayDay) ?xs),
              uuids := uuids st + length (filter (capitalizationDue todayDay) ?xs)\<rparr>"
    by (rule foldl_capitalizeLoan_nofault [OF assms])
       (use wf_distinct [OF assms(2)] in \<open>auto simp: distinct_rows\<close>)
  also have "map (\<lambda>l. if l \<in> set ?xs \<and> capitalizationDue todayDay l
                       then capitalizedRow now l else l) (loans st)
             = map (capitalizationStep now todayDay) (loans st)"
    by (rule map_cong) (auto simp: capitalizationStep_def)
  also have "filter (capitalizationDue todayDay) ?xs
             = filter (\<lambda>l. Status l = ''active'' \<and> capitalizationDue todayDay l) (loans st)"
    by (simp add: conj_commute)
  finally show ?thesis .
qed

section \<open>Loop bodies under arbitrary store failures\<close>

lemma touchesOnly_refl: "touchesOnly y st st"
  by (simp add: touchesOnly_def)

lemma touchesOnly_skipCalls: "touchesOnly y st (skipCalls n st)"
  by (simp add: touchesOnly_def)

lemma touchesOnly_accrueLoan: "touchesOnly y st (accrueLoan now today st y)"
proof -
  have "touchesOnly y st (snd (store_UpdateLoan (accruedRow now today y) st))"
    unfolding touchesOnly_def store_UpdateLoan_flag
    by (auto intro!: exI [of _ "accruedRow now today y"] simp: accruedRow_def)
  then show ?thesis
    by (auto simp: accrueLoan_def Let_def accruedRow_def touchesOnly_refl split: option.splits)
qed

lemma touchesOnly_capitalizeLoan: "touchesOnly y st (capitalizeLoan now todayDay st y)"
proof (cases "capitalizationDue todayDay y")
  case False
  then show ?thesis by (simp add: capitalizeLoan_not_due touchesOnly_refl)
next
  case True
  define tx where "tx = interestTx now (uuids st) y"
  define st1 where "st1 = st\<lparr>uuids := Suc (uuids st)\<rparr>"
  have src_row: "y\<lparr>Balance := Balance y + AccruedInterest y, UpdatedAt := now, AccruedInterest := 0\<rparr>
                   = capitalizedRow now y"
    by (simp add: capitalizedRow_def)
  have src_tx: "\<lparr>TxID = uuids st, LoanID = ID y, Amount = AccruedInterest y,
                 Type = TransactionTypeInterest, Timestamp = now\<rparr> = tx"
    by (simp add: tx_def interestTx_def)
  have body: "capitalizeLoan now todayDay st y =
          (case store_CreateTransaction tx st1 of
             (Some e, st2) \<Rightarrow> st2
           | (None, st2) \<Rightarrow> snd (store_UpdateLoan (capitalizedRow now y) st2))"
    using True
    by (simp add: capitalizeLoan_def capitalizationDue_def uuid_New_def st1_def [symmetric]
          Let_def src_tx src_row split: prod.splits option.splits)
  show ?thesis
    unfolding body store_CreateTransaction_flag store_UpdateLoan_flag touchesOnly_def
    by (auto simp: st1_def intro!: exI [of _ "capitalizedRow now y"] simp: capitalizedRow_def)
qed

lemma touchesOnly_other:
  assumes "touchesOnly y st st'" and "i \<noteq> ID y"
  shows "selectLoan i (loans st') = selectLoan i (loans st)"
  using assms unfolding touchesOnly_def
  by (auto simp: selectLoan_map_other)

lemma touchesOnly_ids:
  assumes "touchesOnly y st st'"
  shows "map ID (loans st') = map ID (loans st)"
  using assms unfolding touchesOnly_def
  by (auto simp: o_def if_distrib [of ID] cong: if_cong)

lemma touchesOnly_row:
  assumes "touchesOnly y st st'" and "selectLoan j (loans st) = Some r0"
  shows "\<exists>r. selectLoan j (loans st') = Some r \<and> (r = r0 \<or> (ID y = j \<and> Status r = Status y))"
proof -
  from assms(1) consider "loans st' = loans st"
    | r where "ID r = ID y" "Status r = Status y"
        "loans st' = map (\<lambda>l. if ID l = ID y then r\<lparr>CreatedAt := CreatedAt l\<rparr> else l) (loans st)"
    unfolding touchesOnly_def by blast
  then show ?thesis
  proof cases
    case 1
    then show ?thesis using assms(2) by simp
  next
    case 2
    have "selectLoan j (loans st') =
            map_option (\<lambda>l. if ID l = ID y then r\<lparr>CreatedAt := CreatedAt l\<rparr> else l)
              (selectLoan j (loans st))"
      unfolding 2(3) by (rule selectLoan_map) (simp add: 2(1))
    then show ?thesis
      using assms(2) selectLoan_Some_D [OF assms(2)] 2(2) by auto
  qed
qed

lemma foldl_touches_ids:
  assumes "\<And>s y. touchesOnly y s (f s y)"
  shows "map ID (loans (foldl f st ys)) = map ID (loans st)"
  by (induction ys arbitrary: st) (simp_all add: touchesOnly_ids [OF assms])

lemma foldl_touches_transactions:
  assumes "\<And>s y. touchesOnly y s (f s y)"
  shows "\<exists>new. transactions (foldl f st ys) = transactions st @ new"
proof (induction ys arbitrary: st)
  case Nil
  then show ?case by simp
next
  case (Cons y ys)
  obtain n1 where "transactions (f st y) = transactions st @ n1"
    using assms [of y st] unfolding touchesOnly_def by blast
  moreover obtain n2 where "transactions (foldl f (f st y) ys) = transactions (f st y) @ n2"
    using Cons.IH by blast
  ultimately show ?case by simp
qed

lemma foldl_touches_other:
  assumes "\<And>s y. touchesOnly y s (f s y)" and "i \<notin> ID ` set ys"
  shows "selectLoan i (loans (foldl f st ys)) = selectLoan i (loans st)"
  using assms(2)
  by (induction ys arbitrary: st) (auto simp: touchesOnly_other [OF assms(1)])

lemma foldl_touches_row:
  assumes "\<And>s y. touchesOnly y s (f s y)" and "selectLoan j (loans st) = Some r0"
  shows "\<exists>r. selectLoan j (loans (foldl f st ys)) = Some r
             \<and> (r = r0 \<or> (\<exists>y\<in>set ys. ID y = j \<and> Status r = Status y))"
  using assms(2)
proof (induction ys arbitrary: st r0)
  case Nil
  then show ?case by simp
next
  case (Cons y ys)
  obtain r1 where r1: "selectLoan j (loans (f st y)) = Some r1"
      "r1 = r0 \<or> (ID y = j \<and> Status r1 = Status y)"
    using touchesOnly_row [OF assms(1) Cons.prems] by blast
  obtain r where r: "selectLoan j (loans (foldl f (f st y) ys)) = Some r"
      "r = r1 \<or> (\<exists>y\<in>set ys. ID y = j \<and> Status r = Status y)"
    using Cons.IH [OF r1(1)] by blast
  show ?case using r r1(2) by auto
qed

lemma batch_rows:
  fixes f :: "State \<Rightarrow> Loan \<Rightarrow> State"
  assumes touches: "\<And>s y. touchesOnly y s (f s y)"
    and B: "B = (case store_GetAllActiveLoans st of (Inl e, st1) \<Rightarrow> st1
                                                    | (Inr ls, st1) \<Rightarrow> foldl f st1 ls)"
    and d: "distinct (map ID (loans st))"
  shows "map ID (loans B) = map ID (loans st)"
    and "\<exists>new. transactions B = transactions st @ new"
    and "selectLoan j (loans st) = Some r0 \<Longrightarrow>
           \<exists>r. selectLoan j (loans B) = Some r
                \<and> (r = r0 \<or> (Status r0 = ''active'' \<and> Status r = ''active''))"
proof -
  let ?ys = "filter (\<lambda>l. Status l = ''active'') (loans st)"
  have Bcases: "B = skipCalls 1 st \<or> B = foldl f (skipCalls 1 st) ?ys"
    unfolding B store_GetAllActiveLoans_flag by simp
  show "map ID (loans B) = map ID (loans st)"
    using Bcases foldl_touches_ids [of f "skipCalls 1 st" ?ys, OF touches] by auto
  show "\<exists>new. transactions B = transactions st @ new"
    using Bcases foldl_touches_transactions [of f "skipCalls 1 st" ?ys, OF touches] by auto
  show "\<exists>r. selectLoan j (loans B) = Some r
                \<and> (r = r0 \<or> (Status r0 = ''active'' \<and> Status r = ''active''))"
    if sel: "selectLoan j (loans st) = Some r0"
  proof -
    have sel1: "selectLoan j (loans (skipCalls 1 st)) = Some r0" using sel by simp
    obtain r where r: "selectLoan j (loans (foldl f (skipCalls 1 st) ?ys)) = Some r"
        "r = r0 \<or> (\<exists>y\<in>set ?ys. ID y = j \<and> Status r = Status y)"
      using foldl_touches_row [of f j "skipCalls 1 st" r0 ?ys, OF touches sel1] by blast
    have r0_in: "r0 \<in> set (loans st)" "ID r0 = j" using selectLoan_Some_D [OF sel] by simp_all
    have "Status r0 = ''active'' \<and> Status r = ''active''"
      if y: "y \<in> set ?ys" "ID y = j" "Status r = Status y" for y
    proof -
      have "y = r0" using same_ID_same_row [OF d r0_in(1), of y] y r0_in(2) by simp
      then show ?thesis using y by simp
    qed
    then have "r = r0 \<or> (Status r0 = ''active'' \<and> Status r = ''active'')"
      using r(2) by blast
    then show ?thesis using Bcases r(1) sel1 by auto
  qed
qed

lemmas CalculateDailyInterest_rows =
  batch_rows [where f = "accrueLoan now (Truncate now hours24)" and B = "CalculateDailyInterest now st",
    OF touchesOnly_accrueLoan CalculateDailyInterest_def] for now st

lemmas ApplyMonthlyInterest_rows =
  batch_rows [where f = "capitalizeLoan now todayDay" and B = "ApplyMonthlyInterest now todayDay st",
    OF touchesOnly_capitalizeLoan ApplyMonthlyInterest_def] for now todayDay st

lemma CreateLoan_loans:
  "loans (snd (CreateLoan now v customerKey principal' baseRate variance st)) = loans st
   \<or> (\<exists>loan. ID loan \<notin> ID ` set (loans st)
         \<and> loans (snd (CreateLoan now v customerKey principal' baseRate variance st))
             = loans st @ [loan])"
  by (auto simp: CreateLoan_def uuid_New_def store_CreateLoan_flag store_CreateTransaction_flag
        Let_def)

lemma RecordPayment_loans:
  "loans (snd (RecordPayment now i amount st)) = loans st
   \<or> (\<exists>l. selectLoan i (loans st) = Some l \<and> Status l = ''active''
         \<and> loans (snd (RecordPayment now i amount st))
             = map (\<lambda>x. if ID x = i then (applyPayment now amount l)\<lparr>CreatedAt := CreatedAt x\<rparr> else x)
                 (loans st))"
proof (cases "selectLoan i (loans st)")
  case None
  then show ?thesis by (simp add: RecordPayment_def store_GetLoan_flag)
next
  case (Some l)
  define loan2 where "loan2 = applyPayment now amount l"
  have id2: "ID loan2 = i" using selectLoan_Some_D [OF Some] by (simp add: loan2_def)
  show ?thesis
  proof (cases "Status l = ''active'' \<and> \<not> willFail 0 st")
    case False
    then show ?thesis by (auto simp: RecordPayment_def store_GetLoan_flag Some)
  next
    case True
    have "RecordPayment now i amount st =
            (case store_UpdateLoan loan2 (skipCalls 1 st) of
               (Some e, st2) \<Rightarrow> (Inl (Wrapped ''failed to update loan balance'' e), st2)
             | (None, st2) \<Rightarrow>
                 (case store_CreateTransaction
                         \<lparr>TxID = uuids st2, LoanID = i, Amount = amount,
                          Type = TransactionTypePayment, Timestamp = now\<rparr>
                         (st2\<lparr>uuids := Suc (uuids st2)\<rparr>) of
                    (Some e, st4) \<Rightarrow> (Inl (Wrapped ''failed to store payment transaction'' e), st4)
                  | (None, st4) \<Rightarrow>
                      (Inr \<lparr>TxID = uuids st2, LoanID = i, Amount = amount,
                            Type = TransactionTypePayment, Timestamp = now\<rparr>, st4)))"
      using True
      by (simp add: RecordPayment_def store_GetLoan_flag Some Let_def loan2_def [symmetric]
            uuid_New_def id2 split: prod.splits option.splits)
    then show ?thesis
      unfolding store_UpdateLoan_flag store_CreateTransaction_flag
      using True Some by (auto simp: id2 loan2_def [symmetric])
  qed
qed

section \<open>Rows under single operations and runs\<close>

lemma step_ids:
  assumes "distinct (map ID (loans st))"
  shows "distinct (map ID (loans (step st op)))"
proof (cases op)
  case (OpCreateLoan now v ck p b var)
  then show ?thesis
    using assms CreateLoan_loans [of now v ck p b var st] by auto
next
  case (OpCalculateDailyInterest now)
  then show ?thesis using assms CalculateDailyInterest_rows(1) [OF assms, of now] by simp
next
  case (OpApplyMonthlyInterest now d)
  then show ?thesis using assms ApplyMonthlyInterest_rows(1) [OF assms, of now d] by simp
next
  case (OpRecordPayment now i amount)
  have "map ID (map (\<lambda>x. if ID x = i then (applyPayment now amount l)\<lparr>CreatedAt := CreatedAt x\<rparr> else x)
                  (loans st)) = map ID (loans st)" if "ID l = i" for l
    using that by (simp add: o_def if_distrib [of ID] cong: if_cong)
  then show ?thesis
    using OpRecordPayment assms RecordPayment_loans [of now i amount st] selectLoan_Some_D
    by (auto simp del: map_map)
qed

lemma step_row:
  assumes "distinct (map ID (loans st))" and "selectLoan i (loans st) = Some l"
  shows "\<exists>l'. selectLoan i (loans (step st op)) = Some l'
          \<and> (l' = l
             \<or> (Status l = ''active'' \<and> Status l' = ''active'')
             \<or> (Status l = ''active'' \<and> Status l' = ''closed'' \<and> Balance l' = 0
                \<and> (\<exists>now amount. op = OpRecordPayment now i amount \<and> Balance l - amount \<le> 0)))"
proof (cases op)
  case (OpCreateLoan now v ck p b var)
  then show ?thesis
    using assms(2) CreateLoan_loans [of now v ck p b var st] by (auto simp: selectLoan_append)
next
  case (OpCalculateDailyInterest now)
  then show ?thesis using CalculateDailyInterest_rows(3) [OF assms, of now] by auto
next
  case (OpApplyMonthlyInterest now d)
  then show ?thesis using ApplyMonthlyInterest_rows(3) [OF assms, of now d] by auto
next
  case (OpRecordPayment now k amount)
  from RecordPayment_loans [of now k amount st]
  consider "loans (snd (RecordPayment now k amount st)) = loans st"
    | l0 where "selectLoan k (loans st) = Some l0" "Status l0 = ''active''"
        "loans (snd (RecordPayment now k amount st))
           = map (\<lambda>x. if ID x = k then (applyPayment now amount l0)\<lparr>CreatedAt := CreatedAt x\<rparr> else x)
               (loans st)"
    by blast
  then show ?thesis
  proof cases
    case 1
    then show ?thesis using OpRecordPayment assms(2) by simp
  next
    case 2
    show ?thesis
    proof (cases "k = i")
      case False
      have "selectLoan i (loans (snd (RecordPayment now k amount st))) = selectLoan i (loans st)"
        unfolding 2(3) using False selectLoan_Some_D [OF 2(1)]
        by (intro selectLoan_map_other) simp_all
      then show ?thesis using OpRecordPayment assms(2) by simp
    next
      case True
      have l0: "l0 = l" using 2(1) assms(2) True by simp
      have "selectLoan i (loans (snd (RecordPayment now k amount st)))
              = map_option (\<lambda>x. if ID x = k then (applyPayment now amount l0)\<lparr>CreatedAt := CreatedAt x\<rparr> else x)
                  (selectLoan i (loans st))"
        unfolding 2(3) using selectLoan_Some_D [OF 2(1)] by (intro selectLoan_map) simp
      then have "selectLoan i (loans (snd (RecordPayment now k amount st)))
              = Some (applyPayment now amount l)"
        using assms(2) selectLoan_Some_D [OF assms(2)] True l0 by simp
      then show ?thesis
        using OpRecordPayment True 2(2) l0
        by (auto simp: applyPayment_def Let_def)
    qed
  qed
qed

lemma run_ids:
  "distinct (map ID (loans st)) \<Longrightarrow> distinct (map ID (loans (run st ops)))"
  unfolding run_def by (induction ops arbitrary: st) (simp_all add: step_ids)

lemma run_row:
  assumes "distinct (map ID (loans st))" and "selectLoan i (loans st) = Some l"
  shows "\<exists>l'. selectLoan i (loans (run st ops)) = Some l'
          \<and> (l' = l
             \<or> (Status l = ''active''
                \<and> (Status l' = ''active''
                   \<or> (Status l' = ''closed'' \<and> Balance l' = 0
                      \<and> (\<exists>now amount. OpRecordPayment now i amount \<in> set ops)))))"
  using assms
proof (induction ops arbitrary: st l)
  case Nil
  then show ?case by (simp add: run_def)
next
  case (Cons op ops)
  obtain l1 where l1: "selectLoan i (loans (step st op)) = Some l1"
      "l1 = l \<or> (Status l = ''active'' \<and> Status l1 = ''active'')
         \<or> (Status l = ''active'' \<and> Status l1 = ''closed'' \<and> Balance l1 = 0
            \<and> (\<exists>now amount. op = OpRecordPayment now i amount \<and> Balance l - amount \<le> 0))"
    using step_row [OF Cons.prems, of op] by blast
  obtain l' where l': "selectLoan i (loans (run (step st op) ops)) = Some l'"
      "l' = l1 \<or> (Status l1 = ''active''
                \<and> (Status l' = ''active''
                   \<or> (Status l' = ''closed'' \<and> Balance l' = 0
                      \<and> (\<exists>now amount. OpRecordPayment now i amount \<in> set ops))))"
    using Cons.IH [OF step_ids [OF Cons.prems(1)] l1(1)] by blast
  have run: "run st (op # ops) = run (step st op) ops" by (simp add: run_def)
  show ?case
    unfolding run using l' l1(2) by (intro exI [of _ l']) auto
qed

section \<open>Monthly capitalization (claims C5 and C10)\<close>

lemma filter_interestTxs_none:
  "i \<notin> ID ` set ys \<Longrightarrow> filter (\<lambda>t. LoanID t = i) (interestTxs now j ys) = []"
  by (induction ys arbitrary: j) (auto simp: interestTx_def)

lemma filter_interestTxs_one:
  "distinct (map ID ys) \<Longrightarrow> l \<in> set ys \<Longrightarrow>
   \<exists>k. filter (\<lambda>t. LoanID t = ID l) (interestTxs now j ys) = [interestTx now k l]"
proof (induction ys arbitrary: j)
  case Nil
  then show ?case by simp
next
  case (Cons y ys)
  show ?case
  proof (cases "l = y")
    case True
    then have "ID l \<notin> ID ` set ys" using Cons.prems(1) by auto
    then show ?thesis
      using True by (auto simp: filter_interestTxs_none interestTx_def)
  next
    case False
    then have "l \<in> set ys" "ID y \<noteq> ID l" using Cons.prems by auto
    then show ?thesis
      using Cons.IH [of "Suc j"] Cons.prems(1) by (auto simp: interestTx_def)
  qed
qed

text \<open>
  Claim C5. One capitalization pass (no store call failing) over a state in which the
  loan with id \<open>i\<close> is active and has its statement day today only appends
  transactions; if the loan's accrued interest is positive, the stored loan afterwards
  has the accrued interest added to its balance and accrued interest 0, and exactly one
  of the appended transactions belongs to it: an interest Transaction whose amount is
  the accrued interest before the reset. If the accrued interest is not positive, the
  loan is unchanged and none of the appended transactions belongs to it.
\<close>

theorem capitalization_pass:
  assumes "wf st" and "faults st = []"
    and "selectLoan i (loans st) = Some l" and "Status l = ''active''"
    and "StatementCycleDay l = todayDay"
  shows "\<exists>new. transactions (ApplyMonthlyInterest now todayDay st) = transactions st @ new
          \<and> (if AccruedInterest l > 0
              then selectLoan i (loans (ApplyMonthlyInterest now todayDay st)) =
                     Some (l\<lparr>Balance := Balance l + AccruedInterest l, UpdatedAt := now,
                             AccruedInterest := 0\<rparr>)
                   \<and> (\<exists>k. filter (\<lambda>t. LoanID t = i) new =
                             [\<lparr>TxID = k, LoanID = i, Amount = AccruedInterest l,
                               Type = TransactionTypeInterest, Timestamp = now\<rparr>])
              else selectLoan i (loans (ApplyMonthlyInterest now todayDay st)) = Some l
                   \<and> filter (\<lambda>t. LoanID t = i) new = [])"
proof -
  let ?ys = "filter (\<lambda>l. Status l = ''active'' \<and> capitalizationDue todayDay l) (loans st)"
  let ?new = "interestTxs now (uuids st) ?ys"
  have l: "l \<in> set (loans st)" "ID l = i" using selectLoan_Some_D [OF assms(3)] by simp_all
  have d: "distinct (map ID (loans st))" by (rule wf_distinct [OF assms(1)])
  have dys: "distinct (map ID ?ys)" using d by (rule distinct_map_filter)
  have tx: "transactions (ApplyMonthlyInterest now todayDay st) = transactions st @ ?new"
    by (simp add: ApplyMonthlyInterest_nofault [OF assms(2,1)])
  have row: "selectLoan i (loans (ApplyMonthlyInterest now todayDay st))
               = Some (capitalizationStep now todayDay l)"
    using assms(3)
    by (simp add: ApplyMonthlyInterest_nofault [OF assms(2,1)] selectLoan_map
          capitalizationStep_def)
  show ?thesis
  proof (cases "AccruedInterest l > 0")
    case True
    then have due: "l \<in> set ?ys"
      using l(1) assms(4,5) by (simp add: capitalizationDue_def)
    obtain k where "filter (\<lambda>t. LoanID t = ID l) ?new = [interestTx now k l]"
      using filter_interestTxs_one [OF dys due] by blast
    then have "\<exists>k. filter (\<lambda>t. LoanID t = i) ?new =
                 [\<lparr>TxID = k, LoanID = i, Amount = AccruedInterest l,
                   Type = TransactionTypeInterest, Timestamp = now\<rparr>]"
      by (auto simp: interestTx_def l(2))
    moreover have "capitalizationStep now todayDay l =
                     l\<lparr>Balance := Balance l + AccruedInterest l, UpdatedAt := now,
                       AccruedInterest := 0\<rparr>"
      using True assms(4,5)
      by (simp add: capitalizationStep_def capitalizationDue_def capitalizedRow_def)
    ultimately show ?thesis
      using True tx row by (intro exI [of _ ?new]) simp
  next
    case False
    have "i \<notin> ID ` set ?ys"
    proof
      assume "i \<in> ID ` set ?ys"
      then obtain y where y: "y \<in> set ?ys" "ID y = i" by auto
      then have "y = l" using same_ID_same_row [OF d l(1), of y] l(2) by simp
      then show False using y(1) False by (simp add: capitalizationDue_def)
    qed
    then have "filter (\<lambda>t. LoanID t = i) ?new = []"
      by (rule filter_interestTxs_none)
    moreover have "capitalizationStep now todayDay l = l"
      using False by (simp add: capitalizationStep_def capitalizationDue_def)
    ultimately show ?thesis
      using False tx row by (intro exI [of _ ?new]) simp
  qed
qed

lemma wf_stateC: "wf stateC"
  by (simp add: wf_def stateC_def loanC_def loanA_def disbursementA_def)

text \<open>
  Witness for C5: accrued interest 5.00 on a balance of 1000.00 gives the balance
  1005.00, accrued interest 0 and one interest Transaction of 5.00.
\<close>

theorem capitalization_pass_witness:
  "wf stateC \<and> faults stateC = [] \<and> selectLoan 0 (loans stateC) = Some loanC
   \<and> Status loanC = ''active'' \<and> StatementCycleDay loanC = 3
   \<and> (\<exists>new. transactions (ApplyMonthlyInterest 50 3 stateC) = transactions stateC @ new
          \<and> selectLoan 0 (loans (ApplyMonthlyInterest 50 3 stateC)) =
               Some (loanC\<lparr>Balance := 1005, UpdatedAt := 50, AccruedInterest := 0\<rparr>)
          \<and> (\<exists>k. filter (\<lambda>t. LoanID t = 0) new =
                    [\<lparr>TxID = k, LoanID = 0, Amount = 5, Type = TransactionTypeInterest,
                      Timestamp = 50\<rparr>]))"
proof -
  have s: "selectLoan 0 (loans stateC) = Some loanC"
    by (simp add: selectLoan_def stateC_def loanC_def loanA_def)
  have a: "Status loanC = ''active''" and c: "StatementCycleDay loanC = 3"
    by (simp_all add: loanC_def loanA_def)
  have f: "faults stateC = []" by (simp add: stateC_def)
  show ?thesis
    using capitalization_pass [OF wf_stateC f s a c, of 50]
    by (simp add: wf_stateC s a c f) (simp add: loanC_def loanA_def)
qed

text \<open>
  Claim C10. Let \<open>x\<close> be the first active loan the pass reads, due for
  capitalization, and let the read and the append of the interest Transaction succeed
  and the update of the loan fail. Then the pass goes on with the remaining loans from a
  state in which the interest Transaction of \<open>x\<close> is stored and the loans are
  untouched; at the end of the pass the Transaction is still there and the stored loan
  is still \<open>x\<close>, with its balance before capitalization and its positive accrued
  interest.
\<close>

theorem capitalization_not_atomic:
  assumes "wf st" and "filter (\<lambda>l. Status l = ''active'') (loans st) = x # rest"
    and "capitalizationDue todayDay x"
    and "\<not> willFail 0 st" and "\<not> willFail 1 st" and "willFail 2 st"
  shows "ApplyMonthlyInterest now todayDay st =
           foldl (capitalizeLoan now todayDay)
             ((skipCalls 3 st)\<lparr>transactions := transactions st @ [interestTx now (uuids st) x],
                               uuids := Suc (uuids st)\<rparr>) rest
         \<and> selectLoan (ID x) (loans (ApplyMonthlyInterest now todayDay st)) = Some x
         \<and> (\<exists>new. transactions (ApplyMonthlyInterest now todayDay st) =
                     transactions st @ interestTx now (uuids st) x # new)"
proof -
  let ?f = "capitalizeLoan now todayDay"
  define st2 where "st2 = (skipCalls 3 st)\<lparr>transactions := transactions st @ [interestTx now (uuids st) x],
                               uuids := Suc (uuids st)\<rparr>"
  have d: "distinct (map ID (loans st))" by (rule wf_distinct [OF assms(1)])
  have "x \<in> set (filter (\<lambda>l. Status l = ''active'') (loans st))"
    unfolding assms(2) by simp
  then have x_in: "x \<in> set (loans st)" by simp
  have sel: "selectLoan (ID x) (loans (skipCalls (Suc 0) st)) = Some x"
    using selectLoan_distinct [OF d x_in] by simp
  have wf1: "wf (skipCalls (Suc 0) st)" using assms(1) by simp
  have body: "?f (skipCalls (Suc 0) st) x = st2"
    using assms(5,6)
    by (simp add: capitalizeLoan_outcomes [OF wf1 sel assms(3)] st2_def numeral_2_eq_2
          numeral_3_eq_3)
  have run: "ApplyMonthlyInterest now todayDay st = foldl ?f st2 rest"
    using assms(4) by (simp add: ApplyMonthlyInterest_def store_GetAllActiveLoans_flag assms(2) body)
  have "distinct (map ID (filter (\<lambda>l. Status l = ''active'') (loans st)))"
    using d by (rule distinct_map_filter)
  then have "ID x \<notin> ID ` set rest" unfolding assms(2) by simp
  then have "selectLoan (ID x) (loans (foldl ?f st2 rest)) = selectLoan (ID x) (loans st2)"
    by (rule foldl_touches_other [of ?f, OF touchesOnly_capitalizeLoan])
  also have "\<dots> = Some x" using selectLoan_distinct [OF d x_in] by (simp add: st2_def)
  finally have row: "selectLoan (ID x) (loans (foldl ?f st2 rest)) = Some x" .
  obtain new where "transactions (foldl ?f st2 rest) = transactions st2 @ new"
    using foldl_touches_transactions [of ?f st2 rest, OF touchesOnly_capitalizeLoan] by blast
  then have "transactions (foldl ?f st2 rest) = transactions st @ interestTx now (uuids st) x # new"
    by (simp add: st2_def)
  then show ?thesis
    using run row by (auto simp: st2_def)
qed

text \<open>
  Witness for C10: the loan with 5.00 of accrued interest; after the pass the interest
  Transaction of 5.00 is stored while the loan still has balance 1000.00 and accrued
  interest 5.00.
\<close>

theorem capitalization_not_atomic_witness:
  "wf (stateC\<lparr>faults := [False, False, True]\<rparr>)
   \<and> filter (\<lambda>l. Status l = ''active'') (loans (stateC\<lparr>faults := [False, False, True]\<rparr>)) = [loanC]
   \<and> capitalizationDue 3 loanC
   \<and> \<not> willFail 0 (stateC\<lparr>faults := [False, False, True]\<rparr>)
   \<and> \<not> willFail 1 (stateC\<lparr>faults := [False, False, True]\<rparr>)
   \<and> willFail 2 (stateC\<lparr>faults := [False, False, True]\<rparr>)
   \<and> ApplyMonthlyInterest 50 3 (stateC\<lparr>faults := [False, False, True]\<rparr>) =
       \<lparr>loans = [loanC],
        transactions = [disbursementA,
           \<lparr>TxID = 2, LoanID = 0, Amount = 5, Type = TransactionTypeInterest, Timestamp = 50\<rparr>],
        faults = [], uuids = 3\<rparr>
   \<and> Balance loanC = 1000 \<and> AccruedInterest loanC = 5"
proof -
  let ?st = "stateC\<lparr>faults := [False, False, True]\<rparr>"
  have w: "wf ?st" by (simp add: wf_stateC)
  have a: "filter (\<lambda>l. Status l = ''active'') (loans ?st) = [loanC]"
    by (simp add: stateC_def loanC_def loanA_def)
  have c: "capitalizationDue 3 loanC"
    by (simp add: capitalizationDue_def loanC_def loanA_def)
  have f: "\<not> willFail 0 ?st" "\<not> willFail 1 ?st" "willFail 2 ?st"
    by (simp_all add: willFail_def)
  have "ApplyMonthlyInterest 50 3 ?st =
          (skipCalls 3 ?st)\<lparr>transactions := transactions ?st @ [interestTx 50 (uuids ?st) loanC],
                            uuids := Suc (uuids ?st)\<rparr>"
    using capitalization_not_atomic [OF w a c f, of 50] by simp
  also have "\<dots> = \<lparr>loans = [loanC],
        transactions = [disbursementA,
           \<lparr>TxID = 2, LoanID = 0, Amount = 5, Type = TransactionTypeInterest, Timestamp = 50\<rparr>],
        faults = [], uuids = 3\<rparr>"
    by (simp add: skipCalls_def stateC_def interestTx_def loanC_def loanA_def)
  finally show ?thesis
    using w a c f by (simp add: loanC_def loanA_def)
qed

section \<open>The status of a loan (claim C8)\<close>

text \<open>
  Claim C8, as amended. Over every sequence of loan creations, accrual passes,
  capitalization passes and payments, whatever store calls fail: a loan that is not
  active is never changed; a loan whose status has changed was active and is now closed
  with balance 0, and a payment on it is among the operations; and a single operation
  that changes the status of a loan is a payment on that loan whose amount brings its
  balance to zero or below. (Loan ids stay pairwise distinct, so the statement applies
  again to the state reached.)
\<close>

theorem status_only_closes:
  assumes "distinct (map ID (loans st))" and "selectLoan i (loans st) = Some l"
  shows "(\<exists>l'. selectLoan i (loans (run st ops)) = Some l'
            \<and> (Status l \<noteq> ''active'' \<longrightarrow> l' = l)
            \<and> (Status l' \<noteq> Status l \<longrightarrow>
                  Status l = ''active'' \<and> Status l' = ''closed'' \<and> Balance l' = 0
                  \<and> (\<exists>now amount. OpRecordPayment now i amount \<in> set ops)))
         \<and> (\<exists>l'. selectLoan i (loans (step st op)) = Some l'
            \<and> (Status l' \<noteq> Status l \<longrightarrow>
                  Status l = ''active'' \<and> Status l' = ''closed'' \<and> Balance l' = 0
                  \<and> (\<exists>now amount. op = OpRecordPayment now i amount \<and> Balance l - amount \<le> 0)))
         \<and> distinct (map ID (loans (run st ops)))"
proof (intro conjI)
  obtain l' where "selectLoan i (loans (run st ops)) = Some l'"
    "l' = l \<or> (Status l = ''active''
                \<and> (Status l' = ''active''
                   \<or> (Status l' = ''closed'' \<and> Balance l' = 0
                      \<and> (\<exists>now amount. OpRecordPayment now i amount \<in> set ops))))"
    using run_row [OF assms, of ops] by blast
  then show "\<exists>l'. selectLoan i (loans (run st ops)) = Some l'
            \<and> (Status l \<noteq> ''active'' \<longrightarrow> l' = l)
            \<and> (Status l' \<noteq> Status l \<longrightarrow>
                  Status l = ''active'' \<and> Status l' = ''closed'' \<and> Balance l' = 0
                  \<and> (\<exists>now amount. OpRecordPayment now i amount \<in> set ops))"
    by (intro exI [of _ l']) auto
  obtain l1 where "selectLoan i (loans (step st op)) = Some l1"
      "l1 = l \<or> (Status l = ''active'' \<and> Status l1 = ''active'')
         \<or> (Status l = ''active'' \<and> Status l1 = ''closed'' \<and> Balance l1 = 0
            \<and> (\<exists>now amount. op = OpRecordPayment now i amount \<and> Balance l - amount \<le> 0))"
    using step_row [OF assms, of op] by blast
  then show "\<exists>l'. selectLoan i (loans (step st op)) = Some l'
            \<and> (Status l' \<noteq> Status l \<longrightarrow>
                  Status l = ''active'' \<and> Status l' = ''closed'' \<and> Balance l' = 0
                  \<and> (\<exists>now amount. op = OpRecordPayment now i amount \<and> Balance l - amount \<le> 0))"
    by (intro exI [of _ l1]) auto
  show "distinct (map ID (loans (run st ops)))"
    by (rule run_ids [OF assms(1)])
qed

text \<open>
  Witness for C8: an accrual pass, a capitalization pass, a payment and a creation leave
  the closed loan as it is.
\<close>

theorem status_only_closes_witness:
  "distinct (map ID (loans stateD)) \<and> selectLoan 0 (loans stateD) = Some loanD
   \<and> Status loanD = ''closed''
   \<and> selectLoan 0 (loans (run stateD
        [OpCalculateDailyInterest 100, OpApplyMonthlyInterest 100 3, OpRecordPayment 110 0 1,
         OpCreateLoan 120 7 ''cust456'' 500 (1 / 10) 0])) = Some loanD"
proof -
  have d: "distinct (map ID (loans stateD))" by (simp add: stateD_def)
  have s: "selectLoan 0 (loans stateD) = Some loanD"
    by (simp add: selectLoan_def stateD_def loanD_def loanB_def loanA_def)
  have c: "Status loanD = ''closed''" by (simp add: loanD_def)
  show ?thesis
    using status_only_closes [OF d s, of "[OpCalculateDailyInterest 100, OpApplyMonthlyInterest 100 3,
        OpRecordPayment 110 0 1, OpCreateLoan 120 7 ''cust456'' 500 (1 / 10) 0]"]
    by (auto simp: d s c)
qed

text \<open>
  Counterexample to C8 as stated: UpdateLoan is not a no-op on a closed loan. It writes
  whatever record it is given, here status active and balance 600.00, so the closed loan
  is active again; and DeleteLoan removes the closed loan.
\<close>

theorem closed_loan_reopened_counterexample:
  "selectLoan 0 (loans stateD) = Some loanD \<and> Status loanD = ''closed''
   \<and> fst (UpdateLoan 20 (loanD\<lparr>Status := ''active'', Balance := 600\<rparr>) stateD) = None
   \<and> loans (snd (UpdateLoan 20 (loanD\<lparr>Status := ''active'', Balance := 600\<rparr>) stateD))
       = [loanD\<lparr>Status := ''active'', Balance := 600, UpdatedAt := 20\<rparr>]
   \<and> fst (DeleteLoan 0 stateD) = None
   \<and> loans (snd (DeleteLoan 0 stateD)) = []"
  by (simp add: UpdateLoan_def DeleteLoan_def store_UpdateLoan_def store_DeleteLoan_def db_call_def
        selectLoan_def stateD_def loanD_def loanB_def loanA_def)

section \<open>Conservation (claim C1)\<close>

lemma sumAmounts_append [simp]:
  "sumAmounts ty (a @ b) = sumAmounts ty a + sumAmounts ty b"
  by (simp add: sumAmounts_def)

lemma sumAmounts_single [simp]:
  "sumAmounts ty [t] = (if Type t = ty then Amount t else 0)"
  by (simp add: sumAmounts_def)

lemma sumAmounts_interestTxs:
  "sumAmounts ty (interestTxs now j ys) =
     (if ty = TransactionTypeInterest then sum_list (map AccruedInterest ys) else 0)"
  by (induction ys arbitrary: j) (auto simp: sumAmounts_def interestTx_def)

lemma TxID_interestTxs:
  "t \<in> set (interestTxs now j ys) \<Longrightarrow> j \<le> TxID t \<and> TxID t < j + length ys"
  by (induction ys arbitrary: j) (fastforce simp: interestTx_def)+

lemma sum_Balance_capitalizationStep:
  "sum_list (map Balance (map (capitalizationStep now d) ls)) =
     sum_list (map Balance ls)
     + sum_list (map AccruedInterest
         (filter (\<lambda>l. Status l = ''active'' \<and> capitalizationDue d l) ls))"
  by (induction ls) (auto simp: capitalizationStep_def capitalizedRow_def)

lemma sum_Balance_accrualStep:
  "sum_list (map Balance (map (accrualStep now) ls)) = sum_list (map Balance ls)"
  by (induction ls) (auto simp: accrualStep_def accruedRow_def)

lemma sum_list_replace:
  fixes f :: "'a \<Rightarrow> rat"
  shows "distinct ls \<Longrightarrow> l \<in> set ls \<Longrightarrow>
   sum_list (map f (map (\<lambda>x. if x = l then r else x) ls)) = sum_list (map f ls) - f l + f r"
proof (induction ls)
  case Nil
  then show ?case by simp
next
  case (Cons a ls)
  show ?case
  proof (cases "a = l")
    case True
    then have "l \<notin> set ls" using Cons.prems by simp
    then have "map (\<lambda>x. if x = l then r else x) ls = ls"
      by (induction ls) auto
    then show ?thesis using True by simp
  next
    case False
    then show ?thesis using Cons by simp
  qed
qed

lemma step_create_inv:
  assumes "wf st" and "faults st = []" and "balanced st"
  shows "wf (snd (CreateLoan now v ck p b var st))
         \<and> faults (snd (CreateLoan now v ck p b var st)) = []
         \<and> balanced (snd (CreateLoan now v ck p b var st))"
proof -
  define loan where "loan = \<lparr>ID = uuids st, CustomerKey = ck, Principal = p,
                 Balance = p, BaseInterestRate = b,
                 InterestRateVariance = var, InterestRate = b + var,
                 Status = ''active'', CreatedAt = now, UpdatedAt = now,
                 LastInterestCalculationDate = None,
                 StatementCycleDay = assignStatementCycleDay v, AccruedInterest = 0\<rparr>"
  define tx where "tx = \<lparr>TxID = Suc (uuids st), LoanID = uuids st, Amount = p,
                               Type = TransactionTypeDisbursement, Timestamp = now\<rparr>"
  define st1 where "st1 = st\<lparr>loans := loans st @ [loan], uuids := Suc (uuids st)\<rparr>"
  have eq: "snd (CreateLoan now v ck p b var st) =
              st1\<lparr>transactions := transactions st1 @ [tx], uuids := Suc (uuids st1)\<rparr>"
    by (simp add: CreateLoan_ok [OF assms(1,2)] Let_def st1_def loan_def tx_def)
  have "wf st1" unfolding st1_def by (rule wf_append_loan [OF assms(1)]) (simp add: loan_def)
  then have "wf (st1\<lparr>transactions := transactions st1 @ [tx], uuids := Suc (uuids st1)\<rparr>)"
    by (rule wf_append_tx) (simp add: tx_def st1_def)
  moreover have "balanced (st1\<lparr>transactions := transactions st1 @ [tx], uuids := Suc (uuids st1)\<rparr>)"
    using assms(3)
    by (simp add: balanced_def ledgerTotal_def sumBalances_def st1_def tx_def loan_def)
  ultimately show ?thesis using assms(2) by (simp add: eq st1_def)
qed

lemma step_accrue_inv:
  assumes "wf st" and "faults st = []" and "balanced st"
  shows "wf (CalculateDailyInterest now st) \<and> faults (CalculateDailyInterest now st) = []
         \<and> balanced (CalculateDailyInterest now st)"
proof -
  have eq: "CalculateDailyInterest now st = st\<lparr>loans := map (accrualStep now) (loans st)\<rparr>"
    by (rule CalculateDailyInterest_nofault [OF assms(2) wf_distinct [OF assms(1)]])
  have "wf (st\<lparr>loans := map (accrualStep now) (loans st)\<rparr>)"
    by (rule wf_map_loans [OF assms(1)]) simp
  then show ?thesis
    using assms(2,3)
    by (simp add: eq balanced_def ledgerTotal_def sumBalances_def sum_Balance_accrualStep
          del: map_map)
qed

lemma wf_capitalized:
  assumes "wf st" and "\<And>l. ID (f l) = ID l"
  shows "wf (st\<lparr>loans := map f (loans st),
               transactions := transactions st @ interestTxs now (uuids st) ys,
               uuids := uuids st + length ys\<rparr>)"
proof -
  have ids: "map ID (map f (loans st)) = map ID (loans st)"
    by (simp add: assms(2))
  have a: "distinct (map ID (map f (loans st)))"
    using assms(1) unfolding ids by (simp add: wf_def)
  have b: "ID l < uuids st + length ys" if "l \<in> set (map f (loans st))" for l
  proof -
    from that obtain l0 where "l0 \<in> set (loans st)" "l = f l0" by auto
    then have "ID l < uuids st" using assms by (auto simp: wf_def list_all_iff)
    then show ?thesis by simp
  qed
  have c: "TxID t < uuids st + length ys"
    if "t \<in> set (transactions st @ interestTxs now (uuids st) ys)" for t
  proof (cases "t \<in> set (transactions st)")
    case True
    then have "TxID t < uuids st" using assms(1) by (auto simp: wf_def list_all_iff)
    then show ?thesis by simp
  next
    case False
    then have "t \<in> set (interestTxs now (uuids st) ys)" using that by simp
    then show ?thesis using TxID_interestTxs by blast
  qed
  show ?thesis
    unfolding wf_def list_all_iff using a b c by (simp del: map_map set_map set_append)
qed

lemma step_capitalize_inv:
  assumes "wf st" and "faults st = []" and "balanced st"
  shows "wf (ApplyMonthlyInterest now d st) \<and> faults (ApplyMonthlyInterest now d st) = []
         \<and> balanced (ApplyMonthlyInterest now d st)"
proof -
  let ?ys = "filter (\<lambda>l. Status l = ''active'' \<and> capitalizationDue d l) (loans st)"
  have eq: "ApplyMonthlyInterest now d st =
           st\<lparr>loans := map (capitalizationStep now d) (loans st),
              transactions := transactions st @ interestTxs now (uuids st) ?ys,
              uuids := uuids st + length ?ys\<rparr>"
    by (rule ApplyMonthlyInterest_nofault [OF assms(2,1)])
  have "wf (ApplyMonthlyInterest now d st)"
    unfolding eq by (rule wf_capitalized [OF assms(1)]) (simp add: capitalizationStep_def)
  moreover have "balanced (ApplyMonthlyInterest now d st)"
    using assms(3)
    by (simp add: eq balanced_def ledgerTotal_def sumBalances_def sumAmounts_interestTxs
          sum_Balance_capitalizationStep del: map_map)
  ultimately show ?thesis using assms(2) by (simp add: eq)
qed

lemma Balance_applyPayment:
  "amount \<le> Balance l \<Longrightarrow> Balance (applyPayment now amount l) = Balance l - amount"
  by (simp add: applyPayment_def Let_def)

lemma step_pay_inv:
  assumes "wf st" and "faults st = []" and "balanced st"
    and "withinBalance st (OpRecordPayment now i amount)"
  shows "wf (snd (RecordPayment now i amount st))
         \<and> faults (snd (RecordPayment now i amount st)) = []
         \<and> balanced (snd (RecordPayment now i amount st))"
proof (cases "selectLoan i (loans st)")
  case None
  then have "RecordPayment now i amount st = (Inl LoanNotFound, st)"
    using assms(2)
    by (simp add: RecordPayment_def store_GetLoan_flag willFail_nofault skipCalls_nofault)
  then show ?thesis using assms by simp
next
  case (Some l)
  show ?thesis
  proof (cases "Status l = ''active''")
    case False
    then show ?thesis using assms by (simp add: RecordPayment_closed [OF assms(2) Some])
  next
    case True
    have le: "amount \<le> Balance l" using assms(4) Some True by simp
    have l_in: "l \<in> set (loans st)" using selectLoan_Some_D [OF Some] by simp
    define tx where "tx = \<lparr>TxID = uuids st, LoanID = i, Amount = amount,
                 Type = TransactionTypePayment, Timestamp = now\<rparr>"
    define st1 where "st1 = st\<lparr>loans := map (\<lambda>x. if x = l then applyPayment now amount l else x) (loans st)\<rparr>"
    have eq: "snd (RecordPayment now i amount st) =
                st1\<lparr>transactions := transactions st1 @ [tx], uuids := Suc (uuids st1)\<rparr>"
      by (simp add: RecordPayment_ok [OF assms(1,2) Some True] Let_def st1_def tx_def)
    have "wf st1" unfolding st1_def by (rule wf_map_loans [OF assms(1)]) simp
    then have "wf (st1\<lparr>transactions := transactions st1 @ [tx], uuids := Suc (uuids st1)\<rparr>)"
      by (rule wf_append_tx) (simp add: tx_def st1_def)
    moreover have "sumBalances st1 = sumBalances st - amount"
      unfolding sumBalances_def st1_def
      using sum_list_replace [OF distinct_rows [OF wf_distinct [OF assms(1)]] l_in,
          of Balance "applyPayment now amount l"]
      by (simp add: Balance_applyPayment [OF le] del: map_map)
    then have "balanced (st1\<lparr>transactions := transactions st1 @ [tx], uuids := Suc (uuids st1)\<rparr>)"
      using assms(3)
      by (simp add: balanced_def ledgerTotal_def sumBalances_def st1_def tx_def)
    ultimately show ?thesis using assms(2) by (simp add: eq st1_def)
  qed
qed

lemma step_inv:
  assumes "wf st" and "faults st = []" and "balanced st" and "withinBalance st op"
  shows "wf (step st op) \<and> faults (step st op) = [] \<and> balanced (step st op)"
proof (cases op)
  case (OpCreateLoan now v ck p b var)
  then show ?thesis using step_create_inv [OF assms(1-3)] by simp
next
  case (OpCalculateDailyInterest now)
  then show ?thesis using step_accrue_inv [OF assms(1-3)] by simp
next
  case (OpApplyMonthlyInterest now d)
  then show ?thesis using step_capitalize_inv [OF assms(1-3)] by simp
next
  case (OpRecordPayment now i amount)
  then show ?thesis using step_pay_inv [OF assms(1-3)] assms(4) by simp
qed

lemma run_inv:
  assumes "wf st" and "faults st = []" and "balanced st" and "noOverpayment st ops"
  shows "wf (run st ops) \<and> faults (run st ops) = [] \<and> balanced (run st ops)"
  using assms
proof (induction ops arbitrary: st)
  case Nil
  then show ?case by (simp add: run_def)
next
  case (Cons op ops)
  have "wf (step st op) \<and> faults (step st op) = [] \<and> balanced (step st op)"
    using Cons.prems by (intro step_inv) simp_all
  then have "wf (run (step st op) ops) \<and> faults (run (step st op) ops) = []
             \<and> balanced (run (step st op) ops)"
    using Cons.prems(4) by (intro Cons.IH) simp_all
  then show ?case by (simp add: run_def)
qed

lemma balanced_emptyState: "balanced emptyState"
  by (simp add: balanced_def ledgerTotal_def sumBalances_def sumAmounts_def emptyState_def)

lemma CreateLoan_example:
  "snd (CreateLoan 5 30 ''cust123'' 1000 (1 / 10) 0 emptyState) = stateA"
proof -
  have f: "faults emptyState = []" by (simp add: emptyState_def)
  have day: "assignStatementCycleDay 30 = 3"
    by (simp add: assignStatementCycleDay_def Intn_def minStatementDay_def maxStatementDay_def)
  show ?thesis
    by (simp add: CreateLoan_ok [OF wf_emptyState f] Let_def day)
       (simp add: emptyState_def stateA_def loanA_def disbursementA_def)
qed

lemma accrual_example:
  "CalculateDailyInterest 100 stateA =
     stateA\<lparr>loans := [loanA\<lparr>AccruedInterest := 2739726027397 / 10 ^ 13, UpdatedAt := 100,
                             LastInterestCalculationDate := Some 0\<rparr>]\<rparr>"
proof -
  have f: "faults stateA = []" and d: "distinct (map ID (loans stateA))"
    by (simp_all add: stateA_def)
  show ?thesis
    using Div_tenth
    by (simp add: CalculateDailyInterest_nofault [OF f d])
       (simp add: stateA_def accrualStep_def accrualDue_def accruedRow_def loanA_def
          Truncate_def hours24_def)
qed

text \<open>
  Counterexample to C1 as stated. After the creation of a loan of 1000.00 at rate 0.10
  and one accrual pass, the transactions sum to 1000.00 while balances plus accrued
  interest are 1000.2739726027397: the accrual recorded no Transaction. After a payment
  of 700.00 on a balance of 600.00 the transactions sum to -100.00 while balance and
  accrued interest are 0: the overpayment is absorbed.
\<close>

theorem conservation_counterexample:
  "ledgerTotal (run emptyState [OpCreateLoan 5 30 ''cust123'' 1000 (1 / 10) 0,
                                OpCalculateDailyInterest 100]) = 1000
   \<and> sumBalances (run emptyState [OpCreateLoan 5 30 ''cust123'' 1000 (1 / 10) 0,
                                 OpCalculateDailyInterest 100]) = 1000
   \<and> sumAccrued (run emptyState [OpCreateLoan 5 30 ''cust123'' 1000 (1 / 10) 0,
                                OpCalculateDailyInterest 100]) = 2739726027397 / 10 ^ 13
   \<and> \<not> conservationClaimed (run emptyState [OpCreateLoan 5 30 ''cust123'' 1000 (1 / 10) 0,
                                           OpCalculateDailyInterest 100])
   \<and> ledgerTotal (run stateB [OpRecordPayment 10 0 700]) = - 100
   \<and> sumBalances (run stateB [OpRecordPayment 10 0 700]) = 0
   \<and> sumAccrued (run stateB [OpRecordPayment 10 0 700]) = 0
   \<and> \<not> conservationClaimed (run stateB [OpRecordPayment 10 0 700])"
proof -
  have r1: "run emptyState [OpCreateLoan 5 30 ''cust123'' 1000 (1 / 10) 0, OpCalculateDailyInterest 100]
          = stateA\<lparr>loans := [loanA\<lparr>AccruedInterest := 2739726027397 / 10 ^ 13, UpdatedAt := 100,
                             LastInterestCalculationDate := Some 0\<rparr>]\<rparr>"
    by (simp add: run_def CreateLoan_example accrual_example)
  have s: "selectLoan 0 (loans stateB) = Some loanB"
    by (simp add: selectLoan_def stateB_def loanB_def loanA_def)
  have a: "Status loanB = ''active''" by (simp add: loanB_def loanA_def)
  have f: "faults stateB = []" by (simp add: stateB_def)
  have r2: "run stateB [OpRecordPayment 10 0 700]
          = stateB\<lparr>loans := [loanB\<lparr>Balance := 0, Status := ''closed'', UpdatedAt := 10\<rparr>],
                   transactions := [disbursementA, paymentB,
                      \<lparr>TxID = 3, LoanID = 0, Amount = 700, Type = TransactionTypePayment,
                       Timestamp = 10\<rparr>],
                   uuids := 4\<rparr>"
    by (simp add: run_def RecordPayment_ok [OF wf_stateB f s a] Let_def)
       (simp add: stateB_def applyPayment_def loanB_def)
  show ?thesis
    unfolding r1 r2
    by (simp add: conservationClaimed_def ledgerTotal_def sumBalances_def sumAccrued_def
          sumAmounts_def stateA_def stateB_def loanA_def loanB_def disbursementA_def paymentB_def)
qed

text \<open>
  Claim C1, as amended. From a well-formed state in which disbursements plus interest
  minus payments equal the sum of the balances (the empty store is one), every sequence
  of creations, accrual passes, capitalization passes and payments in which no store
  call fails and no payment on an active loan exceeds its balance leads to a state with
  the same property. Accrued interest is not part of the identity.
\<close>

theorem ledger_total_is_sum_of_balances:
  assumes "wf st" and "faults st = []" and "ledgerTotal st = sumBalances st"
    and "noOverpayment st ops"
  shows "ledgerTotal (run st ops) = sumBalances (run st ops)"
  using run_inv [OF assms(1,2) _ assms(4)] assms(3) by (simp add: balanced_def)

lemma capitalization_example:
  "ApplyMonthlyInterest 200 3
     (stateA\<lparr>loans := [loanA\<lparr>AccruedInterest := 2739726027397 / 10 ^ 13, UpdatedAt := 100,
                             LastInterestCalculationDate := Some 0\<rparr>]\<rparr>)
   = \<lparr>loans = [loanA\<lparr>Balance := 1000 + 2739726027397 / 10 ^ 13, AccruedInterest := 0,
                         UpdatedAt := 200, LastInterestCalculationDate := Some 0\<rparr>],
      transactions = [disbursementA,
         \<lparr>TxID = 2, LoanID = 0, Amount = 2739726027397 / 10 ^ 13,
          Type = TransactionTypeInterest, Timestamp = 200\<rparr>],
      faults = [], uuids = 3\<rparr>"
proof -
  let ?st = "stateA\<lparr>loans := [loanA\<lparr>AccruedInterest := 2739726027397 / 10 ^ 13, UpdatedAt := 100,
                             LastInterestCalculationDate := Some 0\<rparr>]\<rparr>"
  have f: "faults ?st = []" by (simp add: stateA_def)
  have w: "wf ?st" by (simp add: wf_def stateA_def loanA_def disbursementA_def)
  show ?thesis
    unfolding ApplyMonthlyInterest_nofault [OF f w]
    by (simp add: stateA_def capitalizationStep_def capitalizationDue_def capitalizedRow_def
          interestTx_def loanA_def)
qed

text \<open>
  Witness for C1: a creation, an accrual pass, a capitalization pass and a payment of
  400.00, from the empty store.
\<close>

theorem ledger_total_is_sum_of_balances_witness:
  "wf emptyState \<and> faults emptyState = [] \<and> ledgerTotal emptyState = sumBalances emptyState
   \<and> noOverpayment emptyState
        [OpCreateLoan 5 30 ''cust123'' 1000 (1 / 10) 0, OpCalculateDailyInterest 100,
         OpApplyMonthlyInterest 200 3, OpRecordPayment 300 0 400]
   \<and> ledgerTotal (run emptyState
        [OpCreateLoan 5 30 ''cust123'' 1000 (1 / 10) 0, OpCalculateDailyInterest 100,
         OpApplyMonthlyInterest 200 3, OpRecordPayment 300 0 400])
      = sumBalances (run emptyState
        [OpCreateLoan 5 30 ''cust123'' 1000 (1 / 10) 0, OpCalculateDailyInterest 100,
         OpApplyMonthlyInterest 200 3, OpRecordPayment 300 0 400])"
proof -
  have f: "faults emptyState = []" by (simp add: emptyState_def)
  have b: "ledgerTotal emptyState = sumBalances emptyState"
    using balanced_emptyState by (simp add: balanced_def)
  have n: "noOverpayment emptyState
        [OpCreateLoan 5 30 ''cust123'' 1000 (1 / 10) 0, OpCalculateDailyInterest 100,
         OpApplyMonthlyInterest 200 3, OpRecordPayment 300 0 400]"
    unfolding noOverpayment.simps withinBalance.simps step.simps CreateLoan_example
      accrual_example capitalization_example
    by (simp add: selectLoan_def loanA_def)
  show ?thesis
    using ledger_total_is_sum_of_balances [OF wf_emptyState f b n] wf_emptyState f b n by simp
qed

end
